theory Spec2Isabelle
  imports Complex_Main
begin

section \<open>JavaScript strings and values\<close>

text \<open>
  Strings are lists of code units; the model covers the code units below 256 (ASCII and
  Latin-1), which is where the regular expressions and keywords of \<^verbatim>\<open>main.js\<close>
  live.  A value that the source leaves dynamically typed (a cost is a number, a string
  such as \<^verbatim>\<open>'R'\<close> or \<^verbatim>\<open>'1 to 3'\<close>, or null) is a \<open>jsval\<close>.  Numbers are
  the integers; \<^verbatim>\<open>NaN\<close> is \<open>None\<close>.
\<close>

datatype jsval = JNull | JNum int | JStr string

definition upperLetters :: string where
  "upperLetters = ''ABCDEFGHIJKLMNOPQRSTUVWXYZ'' @
     [CHR 0xC0, CHR 0xC1, CHR 0xC2, CHR 0xC3, CHR 0xC4, CHR 0xC5, CHR 0xC6, CHR 0xC7,
      CHR 0xC8, CHR 0xC9, CHR 0xCA, CHR 0xCB, CHR 0xCC, CHR 0xCD, CHR 0xCE, CHR 0xCF,
      CHR 0xD0, CHR 0xD1, CHR 0xD2, CHR 0xD3, CHR 0xD4, CHR 0xD5, CHR 0xD6, CHR 0xD8,
      CHR 0xD9, CHR 0xDA, CHR 0xDB, CHR 0xDC, CHR 0xDD, CHR 0xDE]"

definition lowerLetters :: string where
  "lowerLetters = ''abcdefghijklmnopqrstuvwxyz'' @
     [CHR 0xE0, CHR 0xE1, CHR 0xE2, CHR 0xE3, CHR 0xE4, CHR 0xE5, CHR 0xE6, CHR 0xE7,
      CHR 0xE8, CHR 0xE9, CHR 0xEA, CHR 0xEB, CHR 0xEC, CHR 0xED, CHR 0xEE, CHR 0xEF,
      CHR 0xF0, CHR 0xF1, CHR 0xF2, CHR 0xF3, CHR 0xF4, CHR 0xF5, CHR 0xF6, CHR 0xF8,
      CHR 0xF9, CHR 0xFA, CHR 0xFB, CHR 0xFC, CHR 0xFD, CHR 0xFE]"

definition toLowerChar :: "char \<Rightarrow> char" where
  "toLowerChar c = (case map_of (zip upperLetters lowerLetters) c of Some l \<Rightarrow> l | None \<Rightarrow> c)"

text \<open>\<^verbatim>\<open>String.prototype.toLowerCase\<close>.\<close>

definition toLowerCase :: "string \<Rightarrow> string" where
  "toLowerCase s = map toLowerChar s"

text \<open>
  \<^verbatim>\<open>String.prototype.toUpperCase\<close> for the letters whose capital is again one code
  unit below 256.  The source applies it to what \<^verbatim>\<open>(\d+|R|F)\<close> captured and to a reply
  that is then searched for the ASCII words \<^verbatim>\<open>ACTION:\<close> and \<^verbatim>\<open>COST:\<close>; the three
  Latin-1 letters left out here (sharp s, micro sign, y with diaeresis) do not produce
  either word.
\<close>

definition toUpperChar :: "char \<Rightarrow> char" where
  "toUpperChar c = (case map_of (zip lowerLetters upperLetters) c of Some u \<Rightarrow> u | None \<Rightarrow> c)"

definition toUpperCase :: "string \<Rightarrow> string" where
  "toUpperCase s = map toUpperChar s"

text \<open>The class \<^verbatim>\<open>\d\<close>.\<close>

definition isDigit :: "char \<Rightarrow> bool" where
  "isDigit c = (c \<in> set ''0123456789'')"

text \<open>The class \<^verbatim>\<open>\w\<close>.\<close>

definition isWordChar :: "char \<Rightarrow> bool" where
  "isWordChar c =
     (c \<in> set ''abcdefghijklmnopqrstuvwxyzABCDEFGHIJKLMNOPQRSTUVWXYZ0123456789_'')"

text \<open>
  The class \<^verbatim>\<open>\s\<close>, which is also what \<^verbatim>\<open>trim\<close> strips: tab, line feed,
  vertical tab, form feed, carriage return, space and the no-break space.
\<close>

definition isWhiteSpace :: "char \<Rightarrow> bool" where
  "isWhiteSpace c = (c \<in> set [CHR 0x09, CHR 0x0A, CHR 0x0B, CHR 0x0C, CHR 0x0D, CHR 0x20, CHR 0xA0])"

text \<open>The characters \<^verbatim>\<open>.\<close> does not match without the \<^verbatim>\<open>s\<close> flag.\<close>

definition isLineTerminator :: "char \<Rightarrow> bool" where
  "isLineTerminator c = (c = CHR 0x0A \<or> c = CHR 0x0D)"

definition trimStart :: "string \<Rightarrow> string" where
  "trimStart s = dropWhile isWhiteSpace s"

definition trimEnd :: "string \<Rightarrow> string" where
  "trimEnd s = rev (dropWhile isWhiteSpace (rev s))"

definition trim :: "string \<Rightarrow> string" where
  "trim s = trimEnd (trimStart s)"

definition startsWith :: "string \<Rightarrow> string \<Rightarrow> bool" where
  "startsWith s p = (take (length p) s = p)"

definition endsWith :: "string \<Rightarrow> string \<Rightarrow> bool" where
  "endsWith s p = (length p \<le> length s \<and> drop (length s - length p) s = p)"

text \<open>
  \<^verbatim>\<open>s.indexOf(sub, position)\<close>: the position is clamped to the length of \<open>s\<close>, and
  \<open>None\<close> is the source's \<^verbatim>\<open>-1\<close>.  An empty \<open>sub\<close> is found at the clamped position.
\<close>

definition indexOfFrom :: "string \<Rightarrow> string \<Rightarrow> nat \<Rightarrow> nat option" where
  "indexOfFrom s sub position =
     List.find (\<lambda>k. k + length sub \<le> length s \<and> take (length sub) (drop k s) = sub)
       [min position (length s) ..< Suc (length s)]"

definition indexOf :: "string \<Rightarrow> string \<Rightarrow> nat option" where
  "indexOf s sub = indexOfFrom s sub 0"

text \<open>\<^verbatim>\<open>s.includes(sub)\<close> on strings.\<close>

definition includesStr :: "string \<Rightarrow> string \<Rightarrow> bool" where
  "includesStr s sub = (indexOf s sub \<noteq> None)"

definition digitVal :: "char \<Rightarrow> nat" where
  "digitVal c = length (takeWhile (\<lambda>d. d \<noteq> c) ''0123456789'')"

fun digitsToNat :: "nat \<Rightarrow> string \<Rightarrow> nat" where
  "digitsToNat acc [] = acc"
| "digitsToNat acc (c # cs) = digitsToNat (10 * acc + digitVal c) cs"

text \<open>
  \<^verbatim>\<open>parseInt(s, 10)\<close> on a string: leading white space is skipped, one sign is read,
  then the longest run of digits; no digit gives \<^verbatim>\<open>NaN\<close>.
\<close>

definition parseIntStr :: "string \<Rightarrow> int option" where
  "parseIntStr s =
     (let t = trimStart s;
          negative = startsWith t ''-'';
          body = (if startsWith t ''-'' \<or> startsWith t ''+'' then drop 1 t else t);
          ds = takeWhile isDigit body
      in if ds = [] then None
         else Some ((if negative then - 1 else 1) * int (digitsToNat 0 ds)))"

text \<open>
  \<^verbatim>\<open>parseInt(v, 10)\<close> on a value: a number is first printed and then read back, which
  gives the number itself for the integers (of magnitude below \<open>10\<^sup>2\<^sup>1\<close>, where JavaScript
  still prints every digit); \<^verbatim>\<open>null\<close> prints as a word without digits.
\<close>

fun parseInt :: "jsval \<Rightarrow> int option" where
  "parseInt JNull = None"
| "parseInt (JNum n) = Some n"
| "parseInt (JStr s) = parseIntStr s"

section \<open>Suggestion text parser: \<^verbatim>\<open>parseLLMSuggestion\<close>\<close>

text \<open>
  The regular expressions of the parser are matched by the functions below.  All of them
  carry the \<^verbatim>\<open>i\<close> flag, under which two code units match when their capitals agree;
  below 256 that is agreement after \<open>toLowerChar\<close>, and a code unit above 127 never
  matches an ASCII letter.
\<close>

text \<open>The text \<open>s\<close> starts with \<open>p\<close>, up to the case of letters.\<close>

definition startsWithCI :: "string \<Rightarrow> string \<Rightarrow> bool" where
  "startsWithCI s p = (toLowerCase (take (length p) s) = toLowerCase p)"

definition isStar :: "char \<Rightarrow> bool" where
  "isStar c = (c = CHR ''*'')"

text \<open>
  \<^verbatim>\<open>\s*\**LABEL\<close> read from the start of \<open>r\<close>: white space and then stars, each as far
  as they go (the next thing the pattern wants is neither, so giving a character back never
  helps), then the label.  The result is the text after the label.
\<close>

definition labelHeader :: "string \<Rightarrow> string \<Rightarrow> string option" where
  "labelHeader label r =
     (let r2 = dropWhile isStar (dropWhile isWhiteSpace r)
      in if startsWithCI r2 label then Some (drop (length label) r2) else None)"

text \<open>
  \<^verbatim>\<open>(?:^|\n)\<close> followed by a pattern \<open>f\<close> that begins with \<^verbatim>\<open>\s*\<close>: the match may
  start at the beginning of the text or at a line feed, and the leftmost start wins.  So
  \<open>f\<close> is tried at the beginning of every line in turn (\<open>atStart\<close> says that the position
  is one).
\<close>

fun firstAtLineStart :: "(string \<Rightarrow> 'a option) \<Rightarrow> bool \<Rightarrow> string \<Rightarrow> 'a option" where
  "firstAtLineStart f atStart [] = (if atStart then f [] else None)"
| "firstAtLineStart f atStart (c # cs) =
     (if atStart then
        (case f (c # cs) of
           Some r \<Rightarrow> Some r
         | None \<Rightarrow> firstAtLineStart f (c = CHR 0x0A) cs)
      else firstAtLineStart f (c = CHR 0x0A) cs)"

text \<open>
  The lookahead \<^verbatim>\<open>(?=\s*\n\s*\**(?:L1|L2|...)|$)\<close> at the start of \<open>r\<close>: either \<open>r\<close>
  is empty, or the white space at its start holds a line feed and is followed by stars and
  one of the labels.
\<close>

definition nextLabelAhead :: "string list \<Rightarrow> string \<Rightarrow> bool" where
  "nextLabelAhead labels r =
     (r = [] \<or>
      (CHR 0x0A \<in> set (takeWhile isWhiteSpace r) \<and>
       list_ex (startsWithCI (dropWhile isStar (dropWhile isWhiteSpace r))) labels))"

text \<open>The lazy \<^verbatim>\<open>(.*?)\<close> under the \<^verbatim>\<open>s\<close> flag: the shortest text after which \<open>stop\<close> holds.\<close>

fun lazyUntil :: "(string \<Rightarrow> bool) \<Rightarrow> string \<Rightarrow> string" where
  "lazyUntil stop [] = []"
| "lazyUntil stop (c # cs) = (if stop (c # cs) then [] else c # lazyUntil stop cs)"

text \<open>
  A block \<^verbatim>\<open>(?:^|\n)\s*\**LABEL\**\s*(.*?)(?=...)\<close>: what the group captures, if the
  pattern matches.
\<close>

definition blockMatch :: "string \<Rightarrow> string list \<Rightarrow> string \<Rightarrow> string option" where
  "blockMatch label nextLabels s =
     (case firstAtLineStart (labelHeader label) True s of
        None \<Rightarrow> None
      | Some rest \<Rightarrow>
          Some (lazyUntil (nextLabelAhead nextLabels)
                  (dropWhile isWhiteSpace (dropWhile isStar rest))))"

text \<open>
  \<^verbatim>\<open>(\d+|R|F)\<close> at the start of \<open>r\<close>: the run of digits, or the one letter.
\<close>

definition costToken :: "string \<Rightarrow> string option" where
  "costToken r =
     (if takeWhile isDigit r \<noteq> [] then Some (takeWhile isDigit r)
      else if startsWithCI r ''R'' \<or> startsWithCI r ''F'' then Some (take 1 r)
      else None)"

text \<open>\<^verbatim>\<open>\s*\**COST:\**\s*(\d+|R|F)\<close> read from the start of \<open>r\<close>.\<close>

definition costHeader :: "string \<Rightarrow> string option" where
  "costHeader r =
     (case labelHeader ''COST:'' r of
        None \<Rightarrow> None
      | Some rest \<Rightarrow> costToken (dropWhile isWhiteSpace (dropWhile isStar rest)))"

text \<open>
  \<^verbatim>\<open>s.replace(/\**LABEL.*$/i, '')\<close>: without the \<^verbatim>\<open>s\<close> and \<^verbatim>\<open>m\<close> flags the dot
  stops at a line terminator and \<^verbatim>\<open>$\<close> is the end of the text, so the text is cut at the
  leftmost place where stars and the label start and no line terminator follows.
\<close>

fun cutFromLabel :: "string \<Rightarrow> string \<Rightarrow> string" where
  "cutFromLabel label [] = []"
| "cutFromLabel label (c # cs) =
     (if startsWithCI (dropWhile isStar (c # cs)) label
         \<and> \<not> list_ex isLineTerminator (drop (length label) (dropWhile isStar (c # cs)))
      then []
      else c # cutFromLabel label cs)"

text \<open>\<^verbatim>\<open>s.split('\n')\<close>.\<close>

fun splitLines :: "string \<Rightarrow> string list" where
  "splitLines [] = [[]]"
| "splitLines (c # cs) =
     (if c = CHR 0x0A then [] # splitLines cs
      else (case splitLines cs of l # ls \<Rightarrow> (c # l) # ls | [] \<Rightarrow> [[c]]))"

text \<open>
  A line pattern \<^verbatim>\<open>^\**LABEL\**\s*(.*)\<close> on a trimmed line: the capture runs to the first
  line terminator left in the line.
\<close>

definition lineMatch :: "string \<Rightarrow> string \<Rightarrow> string option" where
  "lineMatch label trimmedLine =
     (let r = dropWhile isStar trimmedLine
      in if startsWithCI r label
         then Some (takeWhile (\<lambda>c. \<not> isLineTerminator c)
                      (dropWhile isWhiteSpace (dropWhile isStar (drop (length label) r))))
         else None)"

text \<open>The line pattern \<^verbatim>\<open>^\**COST:\**\s*(\d+|R|F)(?:\s*action[s]?)?\<close>.\<close>

definition costLineMatch :: "string \<Rightarrow> string option" where
  "costLineMatch trimmedLine =
     (let r = dropWhile isStar trimmedLine
      in if startsWithCI r ''COST:''
         then costToken (dropWhile isWhiteSpace (dropWhile isStar (drop 5 r)))
         else None)"

text \<open>
  The cost a captured token stands for: \<^verbatim>\<open>'R'\<close>, \<^verbatim>\<open>'F'\<close>, or a number from 1 to 3;
  \<open>JNull\<close> when the number is out of range.
\<close>

definition costOfToken :: "string \<Rightarrow> jsval" where
  "costOfToken tok =
     (let costString = toUpperCase tok
      in if costString = ''R'' \<or> costString = ''F'' then JStr costString
         else case parseIntStr costString of
           Some numericCost \<Rightarrow>
             if 1 \<le> numericCost \<and> numericCost \<le> 3 then JNum numericCost else JNull
         | None \<Rightarrow> JNull)"

text \<open>What the parser returns.  An absent rationale or narrative is \<open>None\<close>.\<close>

record parsedSuggestion =
  description :: string
  target :: "string option"
  cost :: jsval
  rationale :: "string option"
  narrative :: "string option"

text \<open>\<^verbatim>\<open>x?.trim() || null\<close>.\<close>

definition trimOrNull :: "string option \<Rightarrow> string option" where
  "trimOrNull m = (case m of None \<Rightarrow> None | Some t \<Rightarrow> if trim t = [] then None else Some (trim t))"

text \<open>The primary strategy: the five block patterns and the clean-up of what they captured.\<close>

definition parsePrimary :: "string \<Rightarrow> parsedSuggestion option" where
  "parsePrimary responseString =
     (let actionMatch = blockMatch ''ACTION:'' [''TARGET:'', ''COST:'', ''Rationale:'', ''NARRATIVE:'']
                          responseString;
          targetMatch = blockMatch ''TARGET:'' [''COST:'', ''Rationale:'', ''NARRATIVE:''] responseString;
          costMatch = firstAtLineStart costHeader True responseString;
          rationaleMatch = blockMatch ''Rationale:'' [''ACTION:'', ''TARGET:'', ''COST:'', ''NARRATIVE:'']
                             responseString;
          narrativeMatch = blockMatch ''NARRATIVE:'' [] responseString
      in case (actionMatch, targetMatch, costMatch) of
        (Some a, Some t, Some c) \<Rightarrow>
          if a = [] \<or> t = [] then None
          else
            (let parsedCost = costOfToken c;
                 parsedAction = trim (cutFromLabel ''NARRATIVE:'' (cutFromLabel ''Rationale:''
                                  (cutFromLabel ''COST:'' (cutFromLabel ''TARGET:'' (trim a)))));
                 parsedTarget = trim (cutFromLabel ''NARRATIVE:'' (cutFromLabel ''Rationale:''
                                  (cutFromLabel ''COST:'' (trim t))));
                 parsedRationale = map_option (\<lambda>x. trim (cutFromLabel ''NARRATIVE:''
                                  (cutFromLabel ''COST:'' (cutFromLabel ''TARGET:''
                                  (cutFromLabel ''ACTION:'' x))))) (trimOrNull rationaleMatch);
                 parsedNarrative = map_option (\<lambda>x. trim (cutFromLabel ''Rationale:''
                                  (cutFromLabel ''COST:'' (cutFromLabel ''TARGET:''
                                  (cutFromLabel ''ACTION:'' x))))) (trimOrNull narrativeMatch)
             in if trim a \<noteq> [] \<and> trim t \<noteq> [] \<and> parsedCost \<noteq> JNull
                then Some \<lparr> description = parsedAction, target = Some parsedTarget,
                            cost = parsedCost, rationale = parsedRationale,
                            narrative = parsedNarrative \<rparr>
                else None)
      | _ \<Rightarrow> None)"

text \<open>
  The fall-back strategy scans the lines; each of the five \<^verbatim>\<open>potential...\<close> variables
  keeps the first line that sets it.
\<close>

record lineScan =
  potentialAction :: "string option"
  potentialTarget :: "string option"
  potentialCost :: jsval
  potentialRationale :: "string option"
  potentialNarrative :: "string option"

text \<open>\<^verbatim>\<open>if (m?.[1] && !potential) potential = m[1].trim()\<close>.\<close>

definition keepFirst :: "string option \<Rightarrow> string option \<Rightarrow> string option" where
  "keepFirst potential m =
     (case m of
        Some t \<Rightarrow> if t \<noteq> [] \<and> (potential = None \<or> potential = Some []) then Some (trim t) else potential
      | None \<Rightarrow> potential)"

definition scanLine :: "lineScan \<Rightarrow> string \<Rightarrow> lineScan" where
  "scanLine st line =
     (let trimmedLine = trim line
      in \<lparr> potentialAction = keepFirst (potentialAction st) (lineMatch ''ACTION:'' trimmedLine),
           potentialTarget = keepFirst (potentialTarget st) (lineMatch ''TARGET:'' trimmedLine),
           potentialCost =
             (case costLineMatch trimmedLine of
                Some tok \<Rightarrow> if potentialCost st = JNull then costOfToken tok else potentialCost st
              | None \<Rightarrow> potentialCost st),
           potentialRationale = keepFirst (potentialRationale st) (lineMatch ''Rationale:'' trimmedLine),
           potentialNarrative = keepFirst (potentialNarrative st) (lineMatch ''NARRATIVE:'' trimmedLine) \<rparr>)"

definition scanLines :: "string list \<Rightarrow> lineScan" where
  "scanLines lines =
     foldl scanLine
       \<lparr> potentialAction = None, potentialTarget = None, potentialCost = JNull,
         potentialRationale = None, potentialNarrative = None \<rparr> lines"

text \<open>\<^verbatim>\<open>potentialNarrative || ''\<close>.\<close>

definition orEmpty :: "string option \<Rightarrow> string option" where
  "orEmpty m = (case m of None \<Rightarrow> Some [] | Some t \<Rightarrow> Some t)"

text \<open>A \<^verbatim>\<open>potential...\<close> variable is truthy: set, and not the empty string.\<close>

definition truthy :: "string option \<Rightarrow> bool" where
  "truthy m = (case m of None \<Rightarrow> False | Some t \<Rightarrow> t \<noteq> [])"

definition parseFallback :: "string \<Rightarrow> parsedSuggestion option" where
  "parseFallback responseString =
     (let st = scanLines (splitLines responseString)
      in case potentialAction st of
        None \<Rightarrow> None
      | Some action \<Rightarrow>
          if action \<noteq> [] \<and> truthy (potentialTarget st) \<and> potentialCost st \<noteq> JNull
          then Some \<lparr> description = action, target = potentialTarget st,
                      cost = potentialCost st, rationale = potentialRationale st,
                      narrative = orEmpty (potentialNarrative st) \<rparr>
          else if action \<noteq> [] \<and> truthy (potentialTarget st) \<and> potentialCost st = JNull
          then Some \<lparr> description = action, target = potentialTarget st,
                      cost = JNum 1, rationale = potentialRationale st,
                      narrative = orEmpty (potentialNarrative st) \<rparr>
          else None)"

text \<open>\<^verbatim>\<open>responseString.trim().replace(/^-\s*/, '')\<close>.\<close>

definition stripLeadingHyphen :: "string \<Rightarrow> string" where
  "stripLeadingHyphen s =
     (case trim s of
        c # cs \<Rightarrow> if c = CHR ''-'' then dropWhile isWhiteSpace cs else c # cs
      | [] \<Rightarrow> [])"

text \<open>
  \<^verbatim>\<open>parseLLMSuggestion(responseString)\<close>; \<open>None\<close> is the source's \<^verbatim>\<open>null\<close>.  The
  argument is a string here, and the empty string is what the first check refuses.
\<close>

definition parseLLMSuggestion :: "string \<Rightarrow> parsedSuggestion option" where
  "parseLLMSuggestion responseString =
     (if responseString = [] then None
      else case parsePrimary (stripLeadingHyphen responseString) of
        Some parsed \<Rightarrow> Some parsed
      | None \<Rightarrow> parseFallback (stripLeadingHyphen responseString))"

section \<open>Cost arbiter: \<^verbatim>\<open>determineAuthoritativeCost\<close>\<close>

text \<open>
  The result object of \<^verbatim>\<open>identifySuggestionTypeAndCost\<close> (\<^verbatim>\<open>overallResult\<close>),
  with the fields that the resolver's special case writes and that the cost arbiter and
  the request cycle read.  The remaining fields of the source (ids and image URLs for the
  spell, action and consumable buttons) only feed the HTML of the chat card.
\<close>

record identifyResult =
  isStrikeSuggestion :: bool
  strikeIdentifierForButton :: "string option"
  strikeNameForButton :: "string option"
  strikeImageUrl :: "string option"
  strikeLinkUUID :: "string option"
  isGenericActionSuggestion :: bool
  actionNameForLink :: "string option"
  stanceEffectUUID :: "string option"
  spellNameForButton :: "string option"
  consumableNameForButton :: "string option"
  actualActionCost :: jsval
  costSource :: string
  traits :: "string list"
  modifiedDescriptionWithActionLink :: string
  isCombo :: bool

text \<open>
  \<^verbatim>\<open>actualActionCost.match(/^(\d+)\s+to/)\<close>: the captured digits, if the string starts
  with digits, white space and \<^verbatim>\<open>to\<close>.
\<close>

definition minCostMatch :: "string \<Rightarrow> string option" where
  "minCostMatch s =
     (let ds = takeWhile isDigit s;
          rest = dropWhile isDigit s
      in if ds \<noteq> [] \<and> takeWhile isWhiteSpace rest \<noteq> []
            \<and> startsWith (dropWhile isWhiteSpace rest) ''to''
         then Some ds else None)"

text \<open>
  \<^verbatim>\<open>typeof actualActionCost === 'string' && actualActionCost.includes(' to ')\<close>.
\<close>

definition isVariableCost :: "jsval \<Rightarrow> bool" where
  "isVariableCost c = (case c of JStr s \<Rightarrow> includesStr s '' to '' | _ \<Rightarrow> False)"

text \<open>
  \<^verbatim>\<open>actualActionCost !== null && typeof actualActionCost !== 'string'\<close>: the cost is a
  number.
\<close>

definition isSpecificCost :: "jsval \<Rightarrow> bool" where
  "isSpecificCost c = (case c of JNum n \<Rightarrow> True | _ \<Rightarrow> False)"

text \<open>The fall-back of the variable-cost branch: the minimum of the range, else 1.\<close>

definition minimumOfRange :: "jsval \<Rightarrow> jsval" where
  "minimumOfRange c =
     (case c of
        JStr s \<Rightarrow> (case minCostMatch s of
                     Some ds \<Rightarrow> JNum (int (digitsToNat 0 ds)) | None \<Rightarrow> JNum 1)
      | _ \<Rightarrow> JNum 1)"

text \<open>
  \<^verbatim>\<open>determineAuthoritativeCost(identifyResult, llmCost)\<close>, branch by branch: the combo
  branch, the variable-cost branch, the catalog branch, the LLM branch and the default.
\<close>

definition determineAuthoritativeCost :: "identifyResult \<Rightarrow> jsval \<Rightarrow> jsval" where
  "determineAuthoritativeCost r llmCost =
     (if isCombo r then
        (if llmCost = JStr ''R'' \<or> llmCost = JStr ''F'' then llmCost
         else case parseInt llmCost of
           Some numericLLMCost \<Rightarrow>
             if 1 \<le> numericLLMCost \<and> numericLLMCost \<le> 3 then JNum numericLLMCost
             else if isSpecificCost (actualActionCost r) then actualActionCost r else JNum 1
         | None \<Rightarrow>
             if isSpecificCost (actualActionCost r) then actualActionCost r else JNum 1)
      else if isVariableCost (actualActionCost r) then
        (if llmCost = JStr ''R'' \<or> llmCost = JStr ''F'' then JNum 1
         else case parseInt llmCost of
           Some numericLLMCost \<Rightarrow>
             if 1 \<le> numericLLMCost \<and> numericLLMCost \<le> 3 then JNum numericLLMCost
             else minimumOfRange (actualActionCost r)
         | None \<Rightarrow> minimumOfRange (actualActionCost r))
      else if isSpecificCost (actualActionCost r) \<and> costSource r \<noteq> ''LLM'' then
        actualActionCost r
      else if llmCost = JStr ''R'' \<or> llmCost = JStr ''F'' then llmCost
      else case parseInt llmCost of
        Some numericCost \<Rightarrow>
          if 1 \<le> numericCost \<and> numericCost \<le> 3 then JNum numericCost else JNum 1
      | None \<Rightarrow> JNum 1)"

text \<open>
  The concrete costs of the vocabulary, one to three actions, a reaction or a free action,
  and the range strings that \<^verbatim>\<open>parseActionCostValue\<close> builds
  (\<^verbatim>\<open>min >= 1 && max >= min && max <= 3\<close>).
\<close>

definition concreteCosts :: "jsval set" where
  "concreteCosts = {JNum 1, JNum 2, JNum 3, JStr ''R'', JStr ''F''}"

definition rangeCosts :: "jsval set" where
  "rangeCosts = {JStr ''1 to 1'', JStr ''1 to 2'', JStr ''1 to 3'',
                 JStr ''2 to 2'', JStr ''2 to 3'', JStr ''3 to 3''}"

text \<open>An identification result for examples: nothing identified, cost left to the LLM.\<close>

definition emptyIdentifyResult :: identifyResult where
  "emptyIdentifyResult =
     \<lparr> isStrikeSuggestion = False, strikeIdentifierForButton = None,
       strikeNameForButton = None, strikeImageUrl = None, strikeLinkUUID = None,
       isGenericActionSuggestion = False, actionNameForLink = None, stanceEffectUUID = None,
       spellNameForButton = None, consumableNameForButton = None,
       actualActionCost = JNull, costSource = ''LLM'', traits = [],
       modifiedDescriptionWithActionLink = [], isCombo = False \<rparr>"

section \<open>Turn state\<close>

text \<open>
  A strike as the resolver reads it from the game state or the actor.  The source probes
  the fields by name and several may be absent (\<open>None\<close>).  The traits of a strike are an
  array of traits on the actor and one comma-separated string in the gathered game state;
  \<^verbatim>\<open>includes\<close> and the spread \<^verbatim>\<open>[...traits]\<close> work on both.
\<close>

datatype traitsValue = TraitsArray "string list" | TraitsString string | TraitsMissing

record strike =
  strikeName :: "string option"
  strikeLabel :: "string option"
  strikeIdentifier :: "string option"
  strikeSlug :: "string option"
  imageUrl :: "string option"
  strikeUuid :: "string option"
  strikeItemUuid :: "string option"
  bonuses :: "string option"
  damage :: "string option"
  strikeTraits :: traitsValue

text \<open>
  The turn state that is kept in the actor's \<^verbatim>\<open>TURN_STATE\<close> flag and handed from one
  request to the next.  \<^verbatim>\<open>currentMAP\<close> may be missing (\<open>None\<close>); the source defaults it
  with \<^verbatim>\<open>?? 0\<close>.  A successful strike is recorded as its target name and strike name.
\<close>

record turnState =
  actionsRemaining :: int
  stunnedValueAtStart :: int
  slowedValueAtStart :: int
  currentMAP :: "int option"
  actionsTakenDescriptions :: "string list"
  narrativesTaken :: "string list"
  manualNotes :: string
  successfulStrikesThisRound :: "(string \<times> string) list"

text \<open>The three flags of the module on an actor; an unset flag is \<open>None\<close> (or \<open>False\<close>).\<close>

record actorFlags =
  TURN_STATE :: "turnState option"
  IS_PROCESSING :: bool
  CACHED_STRIKES :: "strike list option"

definition clearAITurnFlags :: "actorFlags \<Rightarrow> actorFlags" where
  "clearAITurnFlags flags = \<lparr> TURN_STATE = None, IS_PROCESSING = False, CACHED_STRIKES = None \<rparr>"

text \<open>The state that \<^verbatim>\<open>_onAcceptControlClick\<close> writes into the flag.\<close>

definition acceptedTurnState :: turnState where
  "acceptedTurnState =
     \<lparr> actionsRemaining = 3, stunnedValueAtStart = 0, slowedValueAtStart = 0,
       currentMAP = Some 0, actionsTakenDescriptions = [], narrativesTaken = [],
       manualNotes = [], successfulStrikesThisRound = [] \<rparr>"

text \<open>
  What a click handler finds when it looks up the combat: whether there is an active
  combat, whether the combatant's actor exists, and whether the combatant is the one whose
  turn it is.
\<close>

record clickContext =
  combatActive :: bool
  actorFound :: bool
  isCurrentCombatant :: bool

text \<open>\<^verbatim>\<open>_updateMAPBasedOnTrait(actor, actionTraits)\<close>.\<close>

definition updateMAPBasedOnTrait :: "actorFlags \<Rightarrow> string list \<Rightarrow> actorFlags" where
  "updateMAPBasedOnTrait flags actionTraits =
     (if ''attack'' \<notin> set actionTraits then flags
      else case TURN_STATE flags of
        None \<Rightarrow> flags
      | Some currentTurnState \<Rightarrow>
          (let oldMAP = (case currentMAP currentTurnState of Some m \<Rightarrow> m | None \<Rightarrow> 0);
               isAgile = (''agile'' \<in> set actionTraits);
               penaltyIncrement = (if isAgile then 4 else 5);
               nextMAP = (if oldMAP = 0 then penaltyIncrement
                          else if oldMAP = 4 \<or> oldMAP = 5 then (if isAgile then 8 else 10)
                          else (if isAgile then 8 else 10))
           in if nextMAP \<noteq> oldMAP
              then flags\<lparr>TURN_STATE := Some (currentTurnState\<lparr>currentMAP := Some nextMAP\<rparr>)\<rparr>
              else flags))"

text \<open>
  \<^verbatim>\<open>_onManualMAPAdjust\<close>: \<open>mapValue\<close> is what \<^verbatim>\<open>parseInt\<close> read from the radio button.
\<close>

definition onManualMAPAdjust :: "clickContext \<Rightarrow> int option \<Rightarrow> actorFlags \<Rightarrow> actorFlags" where
  "onManualMAPAdjust ctx mapValue flags =
     (case mapValue of
        None \<Rightarrow> flags
      | Some v \<Rightarrow>
          if v \<notin> set [0, 4, 5, 8, 10] then flags
          else if \<not> combatActive ctx then flags
          else if \<not> actorFound ctx then flags
          else if \<not> isCurrentCombatant ctx \<or> \<not> IS_PROCESSING flags then flags
          else case TURN_STATE flags of
            None \<Rightarrow> flags
          | Some currentTurnState \<Rightarrow>
              if currentMAP currentTurnState = Some v then flags
              else flags\<lparr>TURN_STATE := Some (currentTurnState\<lparr>currentMAP := Some v\<rparr>)\<rparr>)"

text \<open>The flags after \<^verbatim>\<open>_onAcceptControlClick\<close>, before it requests the first suggestion.\<close>

definition onAcceptControlClick :: "clickContext \<Rightarrow> actorFlags \<Rightarrow> actorFlags" where
  "onAcceptControlClick ctx flags =
     (if \<not> combatActive ctx then flags
      else if \<not> actorFound ctx then flags
      else if \<not> isCurrentCombatant ctx then flags
      else \<lparr> TURN_STATE = Some acceptedTurnState, IS_PROCESSING = True, CACHED_STRIKES = None \<rparr>)"

text \<open>
  \<^verbatim>\<open>_onSkipActionClick\<close>: the remaining actions stay, the notes are replaced.  The result
  carries the state that is handed to the next request.
\<close>

definition onSkipActionClick ::
  "clickContext \<Rightarrow> string \<Rightarrow> actorFlags \<Rightarrow> actorFlags \<times> turnState option" where
  "onSkipActionClick ctx notes flags =
     (if \<not> combatActive ctx then (flags, None)
      else if \<not> actorFound ctx then (flags, None)
      else if \<not> isCurrentCombatant ctx then (clearAITurnFlags flags, None)
      else if \<not> IS_PROCESSING flags then (clearAITurnFlags flags, None)
      else case TURN_STATE flags of
        None \<Rightarrow> (clearAITurnFlags flags, None)
      | Some currentTurnState \<Rightarrow>
          (flags\<lparr>TURN_STATE := Some (currentTurnState\<lparr>manualNotes := notes\<rparr>)\<rparr>,
           Some (currentTurnState\<lparr>manualNotes := notes\<rparr>)))"

text \<open>
  The chat-message hook records a successful strike of the acting combatant in the flag.
\<close>

definition recordSuccessfulStrike :: "string \<Rightarrow> string \<Rightarrow> actorFlags \<Rightarrow> actorFlags" where
  "recordSuccessfulStrike targetTokenName actionName flags =
     (case TURN_STATE flags of
        None \<Rightarrow> flags
      | Some currentTurnState \<Rightarrow>
          flags\<lparr>TURN_STATE := Some (currentTurnState
            \<lparr>successfulStrikesThisRound :=
               successfulStrikesThisRound currentTurnState @ [(targetTokenName, actionName)]\<rparr>)\<rparr>)"

text \<open>
  \<^verbatim>\<open>_onConfirmActionClick\<close> splits the text behind the button into the action
  description and its narrative: by the separators, or by parsing it again when neither
  separator is there.
\<close>

definition extractDescription :: "string \<Rightarrow> string \<times> string" where
  "extractDescription actionDescription =
     (let narrativeSeparator = '' | NARRATIVE: '';
          rationaleSeparator = '' | Rationale: '';
          narrativeIndex = indexOf actionDescription narrativeSeparator;
          narrativeForThisAction =
            (case narrativeIndex of
               Some i \<Rightarrow> trim (drop (i + length narrativeSeparator) actionDescription)
             | None \<Rightarrow> []);
          afterNarrative =
            (case narrativeIndex of
               Some i \<Rightarrow> trim (take i actionDescription)
             | None \<Rightarrow> actionDescription);
          rationaleIndex = indexOf afterNarrative rationaleSeparator;
          cleanedActionDesc =
            (case rationaleIndex of
               Some j \<Rightarrow> trim (take j afterNarrative)
             | None \<Rightarrow> afterNarrative)
      in if narrativeForThisAction = [] \<and> rationaleIndex = None then
           (case parseLLMSuggestion actionDescription of
              Some tempParsed \<Rightarrow>
                (if description tempParsed \<noteq> [] then description tempParsed else cleanedActionDesc,
                 case narrative tempParsed of Some n \<Rightarrow> n | None \<Rightarrow> [])
            | None \<Rightarrow> (cleanedActionDesc, narrativeForThisAction))
         else (cleanedActionDesc, narrativeForThisAction))"

datatype confirmOutcome =
    ConfirmNoCombatOrActor
  | ConfirmTurnAdvanced
  | ConfirmStateMissing
  | ConfirmCostError
  | ConfirmedAction turnState

text \<open>
  \<^verbatim>\<open>_onConfirmActionClick\<close>, up to the request for the next suggestion.
  \<open>actionCostForValidation\<close> is what \<^verbatim>\<open>parseInt\<close> read from the button (\<open>None\<close> for
  \<^verbatim>\<open>NaN\<close>) and \<open>identifiedTraits\<close> are the traits that re-identifying the description
  gave.  A confirmed action returns the new state, which is also the state handed to the
  next request (the multiple attack penalty in the flag is advanced after that state was
  built).
\<close>

definition onConfirmActionClick ::
  "clickContext \<Rightarrow> int option \<Rightarrow> string \<Rightarrow> string list \<Rightarrow> actorFlags
     \<Rightarrow> confirmOutcome \<times> actorFlags" where
  "onConfirmActionClick ctx actionCostForValidation actionDescription identifiedTraits flags =
     (if \<not> combatActive ctx \<or> \<not> actorFound ctx then (ConfirmNoCombatOrActor, flags)
      else if \<not> isCurrentCombatant ctx then (ConfirmTurnAdvanced, clearAITurnFlags flags)
      else case TURN_STATE flags of
        None \<Rightarrow> (ConfirmStateMissing, clearAITurnFlags flags)
      | Some currentTurnState \<Rightarrow>
          (case actionCostForValidation of
             None \<Rightarrow> (ConfirmCostError, flags)
           | Some c \<Rightarrow>
               if c < 0 \<or> c > actionsRemaining currentTurnState then (ConfirmCostError, flags)
               else
                 (let newActionsRemaining = max 0 (actionsRemaining currentTurnState - c);
                      (cleanedActionDesc, narrativeForThisAction) =
                         extractDescription actionDescription;
                      newTurnState = currentTurnState
                        \<lparr> actionsRemaining := newActionsRemaining,
                          actionsTakenDescriptions :=
                            actionsTakenDescriptions currentTurnState @ [cleanedActionDesc],
                          narrativesTaken :=
                            filter (\<lambda>n. n \<noteq> [])
                              (narrativesTaken currentTurnState @ [narrativeForThisAction]),
                          manualNotes := [] \<rparr>
                  in (ConfirmedAction newTurnState,
                      updateMAPBasedOnTrait (flags\<lparr>TURN_STATE := Some newTurnState\<rparr>)
                        identifiedTraits))))"

section \<open>The request cycle: \<^verbatim>\<open>requestNextAISuggestion\<close>\<close>

text \<open>A condition or effect of the game state: its name and its value, if it has one.\<close>

record conditionEffect =
  condName :: string
  condValue :: "int option"

text \<open>A condition on a target; the actor that caused it, where known.\<close>

record targetCondition =
  targetCondName :: string
  sourceActorId :: "string option"

record targetData =
  targetName :: "string option"
  targetConditionsEffects :: "targetCondition list option"

text \<open>
  The part of the gathered game state that the cycle reads: the acting combatant's
  conditions, the names of its passive abilities and of its activatable actions and feats,
  its strikes, the recent events and the targets.
\<close>

record gameState =
  conditionsEffects :: "conditionEffect list"
  passiveAbilities :: "string list"
  actionsAndActionFeatsList :: "string list"
  strikes :: "strike list option"
  recentEvents :: "string list option"
  targets :: "targetData list option"

text \<open>
  What the world answers during one call of \<^verbatim>\<open>requestNextAISuggestion\<close>: whether the
  combatant and its actor exist; whether it is still the combatant's turn; the gathered
  game state (\<open>None\<close> when it is invalid or gathering threw); whether the LLM settings
  are filled in; the reply of the LLM (\<open>None\<close> when the call threw or gave nothing); and
  what \<^verbatim>\<open>identifySuggestionTypeAndCost\<close> returned for the parsed description.
\<close>

record cycleEnv =
  combatantValid :: bool
  turnStillActive :: bool
  gatheredState :: "gameState option"
  llmSettingsPresent :: bool
  llmReply :: "string option"
  identified :: identifyResult
  actorName :: string
  actorId :: string

text \<open>The arguments of the call after \<open>combatant\<close> and \<open>combat\<close>.\<close>

record cycleArgs =
  skippedAction :: "string option"
  manualNotesArg :: "string option"
  updatedTurnState :: "turnState option"

text \<open>The errors that the cycle throws into its own \<^verbatim>\<open>catch\<close>.\<close>

datatype cycleError =
    InvalidGameState
  | LLMNotConfigured
  | NoLLMResponse
  | UnparseableReply
  | CostOverrun jsval int int

text \<open>The suggestion card that is posted to the chat.\<close>

record suggestionCard =
  cardDescription :: string
  cardTarget :: "string option"
  cardCost :: jsval
  buttonCost :: int
  cardTurnState :: turnState

text \<open>
  How a call ends.  \<open>Rerequest\<close> is the recursive call with its three arguments: the
  skipped action, the notes and the turn state handed on.
\<close>

datatype cycleOutcome =
    InvalidCall
  | Aborted
  | TurnComplete
  | ZeroActionStart int int
  | Rerequest string string "turnState option"
  | SuggestionShown suggestionCard
  | Failed cycleError

text \<open>
  The result of a call: how it ended, the actor's flags afterwards, whether a suggestion
  was requested from the LLM, and the errors shown to the user by
  \<^verbatim>\<open>ui.notifications.error\<close>.
\<close>

record cycleResult =
  outcome :: cycleOutcome
  flagsAfter :: actorFlags
  suggestionRequested :: bool
  notifications :: "cycleError list"

text \<open>Initialising or taking over the turn state at the start of the call.\<close>

definition startTurnState :: "cycleArgs \<Rightarrow> turnState" where
  "startTurnState args =
     (let turnState =
        (case updatedTurnState args of
           None \<Rightarrow>
             \<lparr> actionsRemaining = 3, stunnedValueAtStart = 0, slowedValueAtStart = 0,
               currentMAP = Some 0, actionsTakenDescriptions = [], narrativesTaken = [],
               manualNotes = (case manualNotesArg args of Some n \<Rightarrow> n | None \<Rightarrow> []),
               successfulStrikesThisRound = [] \<rparr>
         | Some ts \<Rightarrow>
             (case manualNotesArg args of
                Some n \<Rightarrow> if trim n \<noteq> [] then ts\<lparr>manualNotes := trim n\<rparr> else ts
              | None \<Rightarrow> ts))
      in if currentMAP turnState = None then turnState\<lparr>currentMAP := Some 0\<rparr> else turnState)"

definition notesForThisPrompt :: "cycleArgs \<Rightarrow> turnState \<Rightarrow> string" where
  "notesForThisPrompt args turnState =
     (case manualNotesArg args of Some n \<Rightarrow> n | None \<Rightarrow> manualNotes turnState)"

text \<open>
  \<^verbatim>\<open>conditions.find(c => c.name.toLowerCase().startsWith(prefix))?.value ?? 0\<close>.
\<close>

definition conditionValue :: "string \<Rightarrow> conditionEffect list \<Rightarrow> int" where
  "conditionValue prefix conditions =
     (case List.find (\<lambda>c. startsWith (toLowerCase (condName c)) prefix) conditions of
        None \<Rightarrow> 0
      | Some c \<Rightarrow> (case condValue c of None \<Rightarrow> 0 | Some v \<Rightarrow> v))"

text \<open>The recalculation of the start actions from the gathered conditions.\<close>

definition recalculateStartActions :: "conditionEffect list \<Rightarrow> turnState \<Rightarrow> turnState" where
  "recalculateStartActions conditions turnState =
     (let defaultActions = 3;
          currentStunnedValue = conditionValue ''stunned'' conditions;
          currentSlowedValue = conditionValue ''slowed'' conditions;
          maxConditionValue = max currentStunnedValue currentSlowedValue;
          calculatedStartActions = max 0 (defaultActions - maxConditionValue)
      in turnState\<lparr> actionsRemaining := calculatedStartActions,
                     stunnedValueAtStart := currentStunnedValue,
                     slowedValueAtStart := currentSlowedValue \<rparr>)"

text \<open>
  The change offered by the condition reminder: \<open>-1\<close> removes the condition, \<open>3\<close> reduces
  it by three, \<open>0\<close> leaves it.
\<close>

definition conditionChange :: "int \<Rightarrow> int" where
  "conditionChange v = (if v > 0 then (if v \<le> 3 then - 1 else 3) else 0)"

definition ended :: "cycleOutcome \<Rightarrow> actorFlags \<Rightarrow> bool \<Rightarrow> cycleResult" where
  "ended how flags requested =
     \<lparr> outcome = how, flagsAfter = flags, suggestionRequested = requested, notifications = [] \<rparr>"

text \<open>The \<^verbatim>\<open>catch\<close> of the cycle: the error is shown and the flags are cleared.\<close>

definition caught :: "cycleError \<Rightarrow> actorFlags \<Rightarrow> bool \<Rightarrow> cycleResult" where
  "caught e flags requested =
     \<lparr> outcome = Failed e, flagsAfter = clearAITurnFlags flags,
       suggestionRequested = requested, notifications = [e] \<rparr>"

text \<open>
  The call up to the point where the prompt is written: the guards, the end of the turn,
  gathering the game state, the recalculation at the start of a turn, and the start with
  no actions.  \<open>Inl\<close> is a call that ended here; \<open>Inr\<close> carries on with the turn state,
  the game state and the flags.
\<close>

definition beforePrompt ::
  "cycleEnv \<Rightarrow> cycleArgs \<Rightarrow> actorFlags \<Rightarrow> cycleResult + (turnState \<times> gameState \<times> actorFlags)" where
  "beforePrompt env args flags =
     (if \<not> combatantValid env then Inl (ended InvalidCall flags False)
      else if \<not> turnStillActive env then Inl (ended Aborted (clearAITurnFlags flags) False)
      else if actionsRemaining (startTurnState args) \<le> 0
        then Inl (ended TurnComplete (clearAITurnFlags flags) False)
      else case gatheredState env of
        None \<Rightarrow> Inl (caught InvalidGameState flags False)
      | Some currentGameState \<Rightarrow>
          (let turnState =
                 (if updatedTurnState args = None
                  then recalculateStartActions (conditionsEffects currentGameState)
                         (startTurnState args)
                  else startTurnState args)
           in if actionsRemaining turnState = 0
              then Inl (ended (ZeroActionStart
                                 (conditionChange (stunnedValueAtStart turnState))
                                 (conditionChange (slowedValueAtStart turnState)))
                          (clearAITurnFlags flags) False)
              else Inr (turnState, currentGameState,
                        (case strikes currentGameState of
                           Some ss \<Rightarrow> flags\<lparr>CACHED_STRIKES := Some ss\<rparr>
                         | None \<Rightarrow> flags))))"

text \<open>The first result that a list of attempts gives, in their order.\<close>

fun firstSome :: "('a \<Rightarrow> 'b option) \<Rightarrow> 'a list \<Rightarrow> 'b option" where
  "firstSome f [] = None"
| "firstSome f (x # xs) = (case f x of Some y \<Rightarrow> Some y | None \<Rightarrow> firstSome f xs)"

text \<open>\<^verbatim>\<open>s.replace(sub, by)\<close> with a string pattern: the first occurrence only.\<close>

definition replaceFirstStr :: "string \<Rightarrow> string \<Rightarrow> string \<Rightarrow> string" where
  "replaceFirstStr s sub by' =
     (case indexOf s sub of
        None \<Rightarrow> s
      | Some i \<Rightarrow> take i s @ by' @ drop (i + length sub) s)"

text \<open>
  \<^verbatim>\<open>description.replace(/\\n/g, ' ')\<close>: every backslash followed by the letter n becomes
  a space.
\<close>

fun replaceEscapedNewlines :: "string \<Rightarrow> string" where
  "replaceEscapedNewlines (a # b # cs) =
     (if a = CHR 0x5C \<and> b = CHR ''n'' then CHR '' '' # replaceEscapedNewlines cs
      else a # replaceEscapedNewlines (b # cs))"
| "replaceEscapedNewlines cs = cs"

text \<open>
  Asking the LLM and reading its reply.  \<open>Inl\<close> is the error thrown, with whether the
  LLM had been asked by then; \<open>Inr\<close> is the parsed suggestion with its description
  cleaned.  A reply that cannot be parsed but names neither \<^verbatim>\<open>ACTION:\<close> nor
  \<^verbatim>\<open>COST:\<close> is taken whole as a description that costs one action.
\<close>

definition parsedReply :: "cycleEnv \<Rightarrow> (cycleError \<times> bool) + parsedSuggestion" where
  "parsedReply env =
     (if \<not> llmSettingsPresent env then Inl (LLMNotConfigured, False)
      else case llmReply env of
        None \<Rightarrow> Inl (NoLLMResponse, True)
      | Some llmResponseContent \<Rightarrow>
          if llmResponseContent = [] then Inl (NoLLMResponse, True)
          else
            (let parsedSuggestion =
                   (case parseLLMSuggestion llmResponseContent of
                      Some parsed \<Rightarrow> if description parsed \<noteq> [] then Some parsed else None
                    | None \<Rightarrow> None)
             in case parsedSuggestion of
               Some parsed \<Rightarrow>
                 Inr (parsed\<lparr>description := trim (replaceEscapedNewlines (description parsed))\<rparr>)
             | None \<Rightarrow>
                 if trim llmResponseContent \<noteq> []
                    \<and> \<not> includesStr (toUpperCase llmResponseContent) ''ACTION:''
                    \<and> \<not> includesStr (toUpperCase llmResponseContent) ''COST:''
                 then Inr \<lparr> description = trim (replaceEscapedNewlines (trim llmResponseContent)),
                            target = None, cost = JNum 1,
                            rationale = Some ''LLM response format unclear, assuming 1 action.'',
                            narrative = None \<rparr>
                 else Inl (UnparseableReply, True)))"

text \<open>
  The action name that the passive-ability check extracts, by
  \<^verbatim>\<open>/^(?:Cast|Activate|Use|Strike:)?\s*(?:['"]?)([^:'"(]+?)\1?(?:['"]?)\s*(?:[:(]|$)/i\<close>.
  The attempts are made in the order in which the pattern backtracks: with the leading
  word and then without; the white space after it from all of it down to none; an opening
  quote taken and then left; the name from one character upwards.
\<close>

definition isQuote :: "char \<Rightarrow> bool" where
  "isQuote c = (c = CHR 0x27 \<or> c = CHR 0x22)"

definition isNameStop :: "char \<Rightarrow> bool" where
  "isNameStop c = (c = CHR '':'' \<or> isQuote c \<or> c = CHR ''('')"

text \<open>\<^verbatim>\<open>(?:['"]?)\s*(?:[:(]|$)\<close> at the start of \<open>r\<close>.\<close>

definition nameEndsHere :: "string \<Rightarrow> bool" where
  "nameEndsHere r =
     (case dropWhile isWhiteSpace (case r of c # cs \<Rightarrow> if isQuote c then cs else r | [] \<Rightarrow> []) of
        [] \<Rightarrow> True
      | c # cs \<Rightarrow> c = CHR '':'' \<or> c = CHR ''('')"

definition nameOfLength :: "string \<Rightarrow> nat \<Rightarrow> string option" where
  "nameOfLength r n =
     (if (startsWithCI (drop n r) (take n r) \<and> nameEndsHere (drop (n + n) r))
         \<or> nameEndsHere (drop n r)
      then Some (take n r) else None)"

definition suggestionActionMatch :: "string \<Rightarrow> string option" where
  "suggestionActionMatch d =
     firstSome
       (\<lambda>afterWord.
          firstSome
            (\<lambda>w. firstSome
                   (\<lambda>r. firstSome (nameOfLength r)
                          [1 ..< Suc (length (takeWhile (\<lambda>c. \<not> isNameStop c) r))])
                   (case drop w afterWord of
                      c # cs \<Rightarrow> if isQuote c then [cs, c # cs] else [c # cs]
                    | [] \<Rightarrow> [[]]))
            (rev [0 ..< Suc (length (takeWhile isWhiteSpace afterWord))]))
       (map (\<lambda>word. drop (length word) d)
            (filter (startsWithCI d) [''Cast'', ''Activate'', ''Use'', ''Strike:''])
        @ [d])"

text \<open>
  The suggestion names an ability that is passive and not also among the activatable
  actions and feats.
\<close>

definition suggestsPurelyPassive :: "gameState \<Rightarrow> parsedSuggestion \<Rightarrow> bool" where
  "suggestsPurelyPassive currentGameState parsed =
     (let passiveAbilityNamesLower =
            map (\<lambda>p. trim (replaceFirstStr (toLowerCase p) '' (aura)'' []))
                (passiveAbilities currentGameState);
          suggestedActionNameLower =
            (case suggestionActionMatch (description parsed) of
               Some n \<Rightarrow> toLowerCase (trim n) | None \<Rightarrow> [])
      in suggestedActionNameLower \<noteq> []
         \<and> suggestedActionNameLower \<in> set passiveAbilityNamesLower
         \<and> suggestedActionNameLower
              \<notin> set (map toLowerCase (actionsAndActionFeatsList currentGameState)))"

text \<open>\<^verbatim>\<open>a || b || c || d\<close> on names: the first that is there and not empty.\<close>

definition firstTruthy :: "string option list \<Rightarrow> string option" where
  "firstTruthy names = firstSome (\<lambda>m. if truthy m then m else None) names"

definition isParen :: "char \<Rightarrow> bool" where
  "isParen c = (c = CHR ''('' \<or> c = CHR '')'')"

text \<open>
  \<^verbatim>\<open>,\s*([^()]+)\<close> read after the action name, \<open>r\<close> being the text after the name: the
  white space is skipped as far as it goes; if what follows cannot start the group, one
  character of white space is given back and is all the group gets.
\<close>

definition commaTarget :: "string \<Rightarrow> string option" where
  "commaTarget r =
     (case r of
        [] \<Rightarrow> None
      | c # cs \<Rightarrow>
          if c \<noteq> CHR '','' then None
          else (case dropWhile isWhiteSpace cs of
                  d # ds \<Rightarrow>
                    if \<not> isParen d then Some (takeWhile (\<lambda>x. \<not> isParen x) (d # ds))
                    else if takeWhile isWhiteSpace cs \<noteq> [] then Some [last (takeWhile isWhiteSpace cs)]
                    else None
                | [] \<Rightarrow>
                    if takeWhile isWhiteSpace cs \<noteq> [] then Some [last (takeWhile isWhiteSpace cs)]
                    else None))"

text \<open>The leftmost place in \<open>s\<close> where \<open>f\<close> succeeds on the rest of the text.\<close>

fun firstFrom :: "(string \<Rightarrow> 'a option) \<Rightarrow> string \<Rightarrow> 'a option" where
  "firstFrom f [] = f []"
| "firstFrom f (c # cs) = (case f (c # cs) of Some r \<Rightarrow> Some r | None \<Rightarrow> firstFrom f cs)"

text \<open>
  \<^verbatim>\<open>description.match(/NAME,\s*([^()]+)/i)?.[1]?.trim()\<close> for one of the four action
  names: the target name written after the action and a comma, \<open>None\<close> when the pattern
  does not match.
\<close>

definition prerequisiteTarget :: "string \<Rightarrow> string \<Rightarrow> string option" where
  "prerequisiteTarget actionWord d =
     map_option trim
       (firstFrom (\<lambda>r. if startsWithCI r actionWord then commaTarget (drop (length actionWord) r)
                        else None) d)"

text \<open>
  The test of a recent event against
  \<^verbatim>\<open>^ACTOR:.*->\s+(Success|CriticalSuccess).*\(plus EFFECT\)\<close> with the \<^verbatim>\<open>i\<close> flag, for
  an actor name without characters that are special in a pattern.
\<close>

definition noLineTerminator :: "string \<Rightarrow> bool" where
  "noLineTerminator t = (\<not> list_ex isLineTerminator t)"

definition effectFollows :: "string \<Rightarrow> string \<Rightarrow> bool" where
  "effectFollows effect r =
     list_ex (\<lambda>j. noLineTerminator (take j r) \<and> startsWithCI (drop j r) (''(plus '' @ effect @ '')''))
       [0 ..< Suc (length r)]"

definition successFollows :: "string \<Rightarrow> string \<Rightarrow> bool" where
  "successFollows effect r =
     (takeWhile isWhiteSpace r \<noteq> [] \<and>
      (let r1 = dropWhile isWhiteSpace r
       in (startsWithCI r1 ''Success'' \<and> effectFollows effect (drop 7 r1))
          \<or> (startsWithCI r1 ''CriticalSuccess'' \<and> effectFollows effect (drop 15 r1))))"

definition successfulStrikeWith :: "string \<Rightarrow> string \<Rightarrow> string \<Rightarrow> bool" where
  "successfulStrikeWith effect actor eventString =
     (startsWithCI eventString (actor @ '':'') \<and>
      (let r = drop (Suc (length actor)) eventString
       in list_ex (\<lambda>i. noLineTerminator (take i r) \<and> startsWith (drop i r) ''->''
                        \<and> successFollows effect (drop (i + 2) r))
            [0 ..< Suc (length r)]))"

definition foundSuccessfulStrikeWith :: "string \<Rightarrow> cycleEnv \<Rightarrow> gameState \<Rightarrow> bool" where
  "foundSuccessfulStrikeWith effect env currentGameState =
     (case recentEvents currentGameState of
        None \<Rightarrow> False
      | Some events \<Rightarrow> list_ex (successfulStrikeWith effect (actorName env)) events)"

text \<open>The acting combatant holds the target grabbed or restrained.\<close>

definition isGrabbingTarget :: "cycleEnv \<Rightarrow> gameState \<Rightarrow> string \<Rightarrow> bool" where
  "isGrabbingTarget env currentGameState grabTargetName =
     (case targets currentGameState of
        None \<Rightarrow> False
      | Some ts \<Rightarrow>
          (case List.find (\<lambda>t. map_option toLowerCase (targetName t)
                                = Some (toLowerCase grabTargetName)) ts of
             None \<Rightarrow> False
           | Some targetActorData \<Rightarrow>
               (case targetConditionsEffects targetActorData of
                  None \<Rightarrow> False
                | Some conds \<Rightarrow>
                    list_ex (\<lambda>cond. (toLowerCase (targetCondName cond) = ''grabbed''
                                     \<or> toLowerCase (targetCondName cond) = ''restrained'')
                                    \<and> sourceActorId cond = Some (actorId env)) conds)))"

function natToString :: "nat \<Rightarrow> string" where
  "natToString n =
     (if n < 10 then [''0123456789'' ! n]
      else natToString (n div 10) @ [''0123456789'' ! (n mod 10)])"
  by pat_completeness auto
termination
  by (relation "measure id") auto

text \<open>
  The verdict of the prerequisite validator: the action has no rule, the rule could not be
  applied because no target name was found, the rule passed, or it failed with the text
  that is handed to the next request as the skipped action.
\<close>

datatype prerequisiteVerdict =
    NoRule
  | CheckSkipped
  | CheckPassed
  | CheckFailed string

text \<open>The four rules, in the order of the source: Rend, Grab, Trip, Shove.\<close>

definition prerequisiteCheck ::
  "cycleEnv \<Rightarrow> gameState \<Rightarrow> turnState \<Rightarrow> parsedSuggestion \<Rightarrow> prerequisiteVerdict" where
  "prerequisiteCheck env currentGameState turnState parsed =
     (let primaryActionName =
            map_option toLowerCase
              (firstTruthy [actionNameForLink (identified env), strikeNameForButton (identified env),
                            spellNameForButton (identified env),
                            consumableNameForButton (identified env)])
      in if primaryActionName = Some ''rend'' then
           (case prerequisiteTarget ''rend'' (description parsed) of
              None \<Rightarrow> CheckSkipped
            | Some rendTargetName \<Rightarrow>
                if rendTargetName = [] then CheckSkipped
                else
                  (let relevantStrikesCount =
                         length (filter (\<lambda>(target, strike).
                                   toLowerCase target = toLowerCase rendTargetName
                                   \<and> includesStr (toLowerCase strike) (toLowerCase ''Claw''))
                                 (successfulStrikesThisRound turnState))
                   in if relevantStrikesCount < 2
                      then CheckFailed (''Rend (Failed Prereq: '' @ natToString relevantStrikesCount
                                        @ ''/2 Claw hits)'')
                      else CheckPassed))
         else if primaryActionName = Some ''grab'' then
           (case prerequisiteTarget ''grab'' (description parsed) of
              None \<Rightarrow> CheckSkipped
            | Some grabTargetName \<Rightarrow>
                if grabTargetName = [] then CheckSkipped
                else if foundSuccessfulStrikeWith ''Grab'' env currentGameState
                        \<or> isGrabbingTarget env currentGameState grabTargetName
                then CheckPassed
                else CheckFailed ''Grab (Failed Prereqs)'')
         else if primaryActionName = Some ''trip'' then
           (case prerequisiteTarget ''trip'' (description parsed) of
              None \<Rightarrow> CheckSkipped
            | Some tripTargetName \<Rightarrow>
                if tripTargetName = [] then CheckSkipped
                else if foundSuccessfulStrikeWith ''Knockdown'' env currentGameState
                then CheckPassed
                else CheckFailed ''Trip (Failed Prereqs)'')
         else if primaryActionName = Some ''shove'' then
           (case prerequisiteTarget ''shove'' (description parsed) of
              None \<Rightarrow> CheckSkipped
            | Some shoveTargetName \<Rightarrow>
                if shoveTargetName = [] then CheckSkipped
                else if foundSuccessfulStrikeWith ''Push'' env currentGameState
                then CheckPassed
                else CheckFailed ''Shove (Failed Prereqs)'')
         else NoRule)"

text \<open>
  The numeric cost that is validated against the remaining actions and put on the confirm
  button.
\<close>

definition numericCostForValidation :: "jsval \<Rightarrow> int" where
  "numericCostForValidation authoritativeCost =
     (if authoritativeCost = JStr ''R'' \<or> authoritativeCost = JStr ''F'' then 0
      else case authoritativeCost of
        JStr c \<Rightarrow>
          if includesStr c ''to''
          then (case parseIntStr (case indexOf c '' to '' of Some i \<Rightarrow> take i c | None \<Rightarrow> c) of
                  Some n \<Rightarrow> n | None \<Rightarrow> 1)
          else (case parseIntStr c of Some n \<Rightarrow> n | None \<Rightarrow> 1)
      | JNum n \<Rightarrow> n
      | JNull \<Rightarrow> 1)"

text \<open>The description with the link of the identified action and of a stance's effect.\<close>

definition linkedDescription :: "identifyResult \<Rightarrow> parsedSuggestion \<Rightarrow> string" where
  "linkedDescription identifyResult parsed =
     (let d = (if modifiedDescriptionWithActionLink identifyResult \<noteq> []
               then modifiedDescriptionWithActionLink identifyResult else description parsed)
      in trim (case stanceEffectUUID identifyResult of
                 Some uuid \<Rightarrow>
                   if isGenericActionSuggestion identifyResult \<and> uuid \<noteq> []
                   then d @ '' @UUID['' @ uuid @ '']{(Apply Effect)}'' else d
               | None \<Rightarrow> d))"

text \<open>
  The end of the cycle: the authoritative cost, its validation against the remaining
  actions, and the suggestion card.  The HTML of the card, the clean-up of the rationale
  for display and the targeting of the token on the canvas are not part of the model.
\<close>

definition presentSuggestion ::
  "cycleEnv \<Rightarrow> turnState \<Rightarrow> parsedSuggestion \<Rightarrow> actorFlags \<Rightarrow> cycleResult" where
  "presentSuggestion env turnState parsed flags =
     (let authoritativeCost = determineAuthoritativeCost (identified env) (cost parsed);
          numericCost = numericCostForValidation authoritativeCost
      in if numericCost > 0 \<and> numericCost > actionsRemaining turnState
         then caught (CostOverrun authoritativeCost numericCost (actionsRemaining turnState))
                flags True
         else ended (SuggestionShown
                       \<lparr> cardDescription = linkedDescription (identified env) parsed,
                         cardTarget = target parsed, cardCost = authoritativeCost,
                         buttonCost = numericCost, cardTurnState = turnState \<rparr>)
                flags True)"

text \<open>The call up to the prerequisite validation: the reply is parsed and is not passive.\<close>

definition beforePrerequisites ::
  "cycleEnv \<Rightarrow> cycleArgs \<Rightarrow> actorFlags
     \<Rightarrow> cycleResult + (turnState \<times> gameState \<times> parsedSuggestion \<times> actorFlags)" where
  "beforePrerequisites env args flags =
     (case beforePrompt env args flags of
        Inl r \<Rightarrow> Inl r
      | Inr (turnState, currentGameState, flags1) \<Rightarrow>
          (case parsedReply env of
             Inl (e, requested) \<Rightarrow> Inl (caught e flags1 requested)
           | Inr parsed \<Rightarrow>
               if suggestsPurelyPassive currentGameState parsed
               then Inl (ended (Rerequest (description parsed)
                                  (notesForThisPrompt args turnState) None) flags1 True)
               else Inr (turnState, currentGameState, parsed, flags1)))"

text \<open>The call up to the validation of the cost: the prerequisites did not fail.\<close>

definition beforeCostValidation ::
  "cycleEnv \<Rightarrow> cycleArgs \<Rightarrow> actorFlags
     \<Rightarrow> cycleResult + (turnState \<times> parsedSuggestion \<times> actorFlags)" where
  "beforeCostValidation env args flags =
     (case beforePrerequisites env args flags of
        Inl r \<Rightarrow> Inl r
      | Inr (turnState, currentGameState, parsed, flags1) \<Rightarrow>
          (case prerequisiteCheck env currentGameState turnState parsed of
             CheckFailed skipped \<Rightarrow>
               Inl (ended (Rerequest skipped (notesForThisPrompt args turnState)
                             (Some turnState)) flags1 True)
           | _ \<Rightarrow> Inr (turnState, parsed, flags1)))"

text \<open>One call of \<^verbatim>\<open>requestNextAISuggestion\<close>, up to its recursive call.\<close>

definition requestCycle :: "cycleEnv \<Rightarrow> cycleArgs \<Rightarrow> actorFlags \<Rightarrow> cycleResult" where
  "requestCycle env args flags =
     (case beforeCostValidation env args flags of
        Inl r \<Rightarrow> r
      | Inr (turnState, parsed, flags1) \<Rightarrow> presentSuggestion env turnState parsed flags1)"

text \<open>
  \<^verbatim>\<open>requestNextAISuggestion\<close> with its recursion: every call in the chain consumes the
  answers of the world for that call, and the chain ends with the first call that does not
  ask again.  \<open>None\<close> says that the answers given do not end the chain; the source has no
  bound on its length.
\<close>

fun requestNextAISuggestion ::
  "cycleEnv list \<Rightarrow> cycleArgs \<Rightarrow> actorFlags \<Rightarrow> cycleResult option" where
  "requestNextAISuggestion [] args flags = None"
| "requestNextAISuggestion (env # envs) args flags =
     (case outcome (requestCycle env args flags) of
        Rerequest skipped notes turnState \<Rightarrow>
          requestNextAISuggestion envs
            \<lparr> skippedAction = Some skipped, manualNotesArg = Some notes,
              updatedTurnState = turnState \<rparr>
            (flagsAfter (requestCycle env args flags))
      | _ \<Rightarrow> Some (requestCycle env args flags))"

section \<open>Action resolver: \<^verbatim>\<open>identifySuggestionTypeAndCost\<close>\<close>

text \<open>\<^verbatim>\<open>s.substring(a, b)\<close>: the two positions are put in order first.\<close>

definition substring :: "string \<Rightarrow> nat \<Rightarrow> nat \<Rightarrow> string" where
  "substring s a b = take (max a b - min a b) (drop (min a b) s)"

text \<open>\<^verbatim>\<open>s.replace(/\s+a$/i, '')\<close>: a final letter a with the white space before it.\<close>

definition stripTrailingA :: "string \<Rightarrow> string" where
  "stripTrailingA s =
     (case rev s of
        c # cs \<Rightarrow>
          if (c = CHR ''a'' \<or> c = CHR ''A'') \<and> takeWhile isWhiteSpace cs \<noteq> []
          then rev (dropWhile isWhiteSpace cs) else s
      | [] \<Rightarrow> s)"

text \<open>Surrounding double or single quotes are removed.\<close>

definition stripQuotes :: "string \<Rightarrow> string" where
  "stripQuotes s =
     (if (startsWith s [CHR 0x22] \<and> endsWith s [CHR 0x22])
         \<or> (startsWith s [CHR 0x27] \<and> endsWith s [CHR 0x27])
      then substring s 1 (length s - 1) else s)"

text \<open>\<^verbatim>\<open>s.replace(/[.,;:]\s*$/, '')\<close>: one trailing punctuation mark.\<close>

definition stripTrailingPunctuation :: "string \<Rightarrow> string" where
  "stripTrailingPunctuation s =
     (case dropWhile isWhiteSpace (rev s) of
        c # cs \<Rightarrow> if c \<in> set ''.,;:'' then rev cs else s
      | [] \<Rightarrow> s)"

text \<open>\<^verbatim>\<open>s.replace(/^(Cast|Activate|Use|Strike:?)\s+/i, '')\<close>.\<close>

definition stripLeadingVerb :: "string \<Rightarrow> string" where
  "stripLeadingVerb s =
     (case firstSome
             (\<lambda>word. if startsWithCI s word \<and> takeWhile isWhiteSpace (drop (length word) s) \<noteq> []
                      then Some (dropWhile isWhiteSpace (drop (length word) s)) else None)
             [''Cast'', ''Activate'', ''Use'', ''Strike:'', ''Strike''] of
        Some rest \<Rightarrow> rest
      | None \<Rightarrow> s)"

text \<open>The cleaning of the description at the start of the resolver.\<close>

definition cleanDescription :: "string \<Rightarrow> string" where
  "cleanDescription d =
     trim (stripLeadingVerb (trim (stripTrailingPunctuation
       (stripQuotes (trim (stripTrailingA (trim d)))))))"

text \<open>
  The leading action name, by \<^verbatim>\<open>/^([\w\s'-]+)(?:\s*\(.*?\))?(?:\s*,?\s+.*)?$/i\<close>.  The
  first group is greedy, so it is the longest run of name characters after which the rest
  of the pattern can still match.  \<open>commaRest\<close> is \<^verbatim>\<open>\s*,?\s+.*$\<close> and \<open>parenRest\<close> is
  \<^verbatim>\<open>\s*\(.*?\)\<close> followed by the end or by \<open>commaRest\<close>.
\<close>

definition isActionNameChar :: "char \<Rightarrow> bool" where
  "isActionNameChar c = (isWordChar c \<or> isWhiteSpace c \<or> c = CHR 0x27 \<or> c = CHR ''-'')"

definition spaceThenLine :: "string \<Rightarrow> bool" where
  "spaceThenLine r = (takeWhile isWhiteSpace r \<noteq> [] \<and> noLineTerminator (dropWhile isWhiteSpace r))"

definition commaRest :: "string \<Rightarrow> bool" where
  "commaRest r =
     (spaceThenLine r \<or>
      (case dropWhile isWhiteSpace r of
         c # cs \<Rightarrow> c = CHR '','' \<and> spaceThenLine cs
       | [] \<Rightarrow> False))"

definition parenRest :: "string \<Rightarrow> bool" where
  "parenRest r =
     (case dropWhile isWhiteSpace r of
        c # cs \<Rightarrow>
          c = CHR ''('' \<and>
          list_ex (\<lambda>j. cs ! j = CHR '')'' \<and> noLineTerminator (take j cs)
                       \<and> (drop (Suc j) cs = [] \<or> commaRest (drop (Suc j) cs)))
            [0 ..< length cs]
      | [] \<Rightarrow> False)"

definition actionNameMatch :: "string \<Rightarrow> string option" where
  "actionNameMatch d =
     map_option (\<lambda>k. take k d)
       (List.find (\<lambda>k. drop k d = [] \<or> commaRest (drop k d) \<or> parenRest (drop k d))
          (rev [1 ..< Suc (length (takeWhile isActionNameChar d))]))"

definition primaryActionName :: "string \<Rightarrow> string" where
  "primaryActionName cleanedDescription =
     (case actionNameMatch cleanedDescription of
        Some name \<Rightarrow> trim name
      | None \<Rightarrow> cleanedDescription)"

text \<open>\<^verbatim>\<open>traits?.includes(t)\<close> and \<^verbatim>\<open>[...(traits || [])]\<close> on the traits of a strike.\<close>

definition traitsInclude :: "traitsValue \<Rightarrow> string \<Rightarrow> bool" where
  "traitsInclude ts t =
     (case ts of
        TraitsArray xs \<Rightarrow> t \<in> set xs
      | TraitsString x \<Rightarrow> includesStr x t
      | TraitsMissing \<Rightarrow> False)"

definition spreadTraits :: "traitsValue \<Rightarrow> string list" where
  "spreadTraits ts =
     (case ts of
        TraitsArray xs \<Rightarrow> xs
      | TraitsString x \<Rightarrow> map (\<lambda>c. [c]) x
      | TraitsMissing \<Rightarrow> [])"

text \<open>\<^verbatim>\<open>xs.filter((v, i, a) => a.indexOf(v) === i)\<close>: the first of every value stays.\<close>

definition firstOccurrences :: "'a list \<Rightarrow> 'a list" where
  "firstOccurrences xs = foldl (\<lambda>acc v. if v \<in> set acc then acc else acc @ [v]) [] xs"

text \<open>
  \<^verbatim>\<open>(\d+)d(\d+)\<close> at the start of \<open>s\<close>: the number of dice, the size of the die and the
  length of the match.
\<close>

definition diceAt :: "string \<Rightarrow> (nat \<times> nat \<times> nat) option" where
  "diceAt s =
     (let ds = takeWhile isDigit s
      in case dropWhile isDigit s of
        c # r \<Rightarrow>
          if ds \<noteq> [] \<and> c = CHR ''d'' \<and> takeWhile isDigit r \<noteq> []
          then Some (digitsToNat 0 ds, digitsToNat 0 (takeWhile isDigit r),
                     length ds + 1 + length (takeWhile isDigit r))
          else None
      | [] \<Rightarrow> None)"

text \<open>
  The loop over the matches of the global pattern \<^verbatim>\<open>/(\d+)d(\d+)/g\<close>; \<open>skip\<close> counts
  the characters that still belong to the last match.
\<close>

fun diceTotal :: "nat \<Rightarrow> string \<Rightarrow> rat" where
  "diceTotal skip [] = 0"
| "diceTotal (Suc skip) (c # cs) = diceTotal skip cs"
| "diceTotal 0 (c # cs) =
     (case diceAt (c # cs) of
        Some (numDice, dieSize, len) \<Rightarrow>
          (if dieSize > 0 then of_nat numDice * (of_nat dieSize + 1) / 2 else 0)
            + diceTotal (len - 1) cs
      | None \<Rightarrow> diceTotal 0 cs)"

text \<open>
  \<^verbatim>\<open>([+-]\s*\d+)(?!d)\<close> at the start of \<open>s\<close>: the signed number and the length of the
  match.  When the digits are followed by the letter d the pattern gives the last digit
  back, if there is more than one, and matches the digits before it.
\<close>

definition flatAt :: "string \<Rightarrow> (int \<times> nat) option" where
  "flatAt s =
     (case s of
        [] \<Rightarrow> None
      | c # cs \<Rightarrow>
          if c \<noteq> CHR ''+'' \<and> c \<noteq> CHR ''-'' then None
          else
            (let w = takeWhile isWhiteSpace cs;
                 ds = takeWhile isDigit (dropWhile isWhiteSpace cs);
                 followedByD = startsWith (dropWhile isDigit (dropWhile isWhiteSpace cs)) ''d'';
                 taken = (if followedByD then butlast ds else ds)
             in if taken = [] then None
                else Some ((if c = CHR ''-'' then - 1 else 1) * int (digitsToNat 0 taken),
                           1 + length w + length taken)))"

fun flatTotal :: "nat \<Rightarrow> string \<Rightarrow> rat" where
  "flatTotal skip [] = 0"
| "flatTotal (Suc skip) (c # cs) = flatTotal skip cs"
| "flatTotal 0 (c # cs) =
     (case flatAt (c # cs) of
        Some (flatValue, len) \<Rightarrow> of_int flatValue + flatTotal (len - 1) cs
      | None \<Rightarrow> flatTotal 0 cs)"

text \<open>\<^verbatim>\<open>/^[+-]?\s*\d+$/.test(t)\<close>.\<close>

definition isPlainNumber :: "string \<Rightarrow> bool" where
  "isPlainNumber t =
     (let body = dropWhile isWhiteSpace
                   (case t of c # cs \<Rightarrow> if c = CHR ''+'' \<or> c = CHR ''-'' then cs else t | [] \<Rightarrow> [])
      in body \<noteq> [] \<and> list_all isDigit body)"

text \<open>
  \<^verbatim>\<open>estimateAverageDamage(formula)\<close>; a formula that is missing or not a string is
  \<open>None\<close>.
\<close>

definition estimateAverageDamage :: "string option \<Rightarrow> rat" where
  "estimateAverageDamage formula =
     (case formula of
        None \<Rightarrow> 0
      | Some f \<Rightarrow>
          if f = [] then 0
          else
            (let fromPatterns = diceTotal 0 f + flatTotal 0 f;
                 averageDamage =
                   (if fromPatterns = 0 \<and> isPlainNumber (trim f)
                    then (case parseIntStr (filter (\<lambda>c. \<not> isWhiteSpace c) f) of
                            Some flatValue \<Rightarrow> of_int flatValue
                          | None \<Rightarrow> fromPatterns)
                    else fromPatterns)
             in if averageDamage > 0 then averageDamage else 0))"

text \<open>\<^verbatim>\<open>parseBaseBonus(bonusString)\<close>: the first of the bonuses separated by slashes.\<close>

definition parseBaseBonus :: "string option \<Rightarrow> int" where
  "parseBaseBonus bonusString =
     (case bonusString of
        None \<Rightarrow> - 99
      | Some b \<Rightarrow>
          if b = [] then - 99
          else (case parseIntStr (trim (takeWhile (\<lambda>c. c \<noteq> CHR ''/'') b)) of
                  Some bonusValue \<Rightarrow> bonusValue
                | None \<Rightarrow> - 99))"

text \<open>The comparator of the sort of the eligible strikes.\<close>

definition compareStrikes :: "strike \<Rightarrow> strike \<Rightarrow> rat" where
  "compareStrikes a b =
     (if parseBaseBonus (bonuses a) \<noteq> parseBaseBonus (bonuses b)
      then of_int (parseBaseBonus (bonuses b) - parseBaseBonus (bonuses a))
      else estimateAverageDamage (damage b) - estimateAverageDamage (damage a))"

text \<open>
  \<^verbatim>\<open>Array.prototype.sort\<close> with a comparator.  The sort of JavaScript is stable; for a
  comparator that orders consistently every stable sort gives the result of this insertion
  sort.  An element goes before the first element that it does not have to follow.
\<close>

fun insertBy :: "('a \<Rightarrow> 'a \<Rightarrow> 'n::{zero,linorder}) \<Rightarrow> 'a \<Rightarrow> 'a list \<Rightarrow> 'a list" where
  "insertBy cmp x [] = [x]"
| "insertBy cmp x (y # ys) = (if cmp x y \<le> 0 then x # y # ys else y # insertBy cmp x ys)"

definition sortBy :: "('a \<Rightarrow> 'a \<Rightarrow> 'n::{zero,linorder}) \<Rightarrow> 'a list \<Rightarrow> 'a list" where
  "sortBy cmp xs = foldr (insertBy cmp) xs []"

text \<open>The strikes that Flurry of Blows may use: those with the unarmed or the monk trait.\<close>

definition eligibleStrikes :: "strike list option \<Rightarrow> strike list" where
  "eligibleStrikes ss =
     (case ss of
        None \<Rightarrow> []
      | Some xs \<Rightarrow> filter (\<lambda>s. traitsInclude (strikeTraits s) ''unarmed''
                               \<or> traitsInclude (strikeTraits s) ''monk'') xs)"

text \<open>The result object as it is initialised, for a cleaned description.\<close>

definition initialResult :: "string \<Rightarrow> identifyResult" where
  "initialResult cleanedDescription =
     emptyIdentifyResult\<lparr>modifiedDescriptionWithActionLink := cleanedDescription\<rparr>"

text \<open>
  The special case.  \<open>Some\<close> is the result that is returned early; \<open>None\<close> means that
  the resolver goes on to the generic matching.
\<close>

definition flurryOfBlows :: "string \<Rightarrow> strike list option \<Rightarrow> identifyResult option" where
  "flurryOfBlows cleanedDescription gameStrikes =
     (if toLowerCase (primaryActionName cleanedDescription) \<noteq> ''flurry of blows'' then None
      else case sortBy compareStrikes (eligibleStrikes gameStrikes) of
        [] \<Rightarrow> None
      | bestEligibleStrike # others \<Rightarrow>
          Some ((initialResult cleanedDescription)
            \<lparr> isStrikeSuggestion := True,
              strikeIdentifierForButton :=
                firstTruthy [strikeIdentifier bestEligibleStrike, strikeSlug bestEligibleStrike,
                             strikeLabel bestEligibleStrike],
              strikeNameForButton :=
                firstTruthy [strikeLabel bestEligibleStrike, strikeName bestEligibleStrike],
              strikeImageUrl :=
                (if truthy (imageUrl bestEligibleStrike) then imageUrl bestEligibleStrike
                 else Some ''icons/svg/combat.svg''),
              strikeLinkUUID :=
                firstTruthy [strikeUuid bestEligibleStrike, strikeItemUuid bestEligibleStrike],
              actualActionCost := JNum 1,
              costSource := ''Flurry of Blows Rule'',
              traits := firstOccurrences
                          ([''attack'', ''flurry''] @ spreadTraits (strikeTraits bestEligibleStrike)),
              modifiedDescriptionWithActionLink :=
                ''Flurry of Blows (using ''
                  @ (case firstTruthy [strikeLabel bestEligibleStrike, strikeName bestEligibleStrike] of
                       Some n \<Rightarrow> n | None \<Rightarrow> ''undefined'')
                  @ '')'' \<rparr>))"

text \<open>
  The entries of the master list of linkable items, which the resolver compiles from the
  game state and the actor, without duplicates and sorted by the length of the name.
\<close>

datatype itemKind = SpellItem | StrikeItem | ActionItem | ConsumableItem

record catalogItem =
  itemName :: string
  uuid :: string
  itemType :: itemKind
  itemImg :: "string option"
  itemId :: "string option"
  entryId :: "string option"
  itemIdentifier :: "string option"

text \<open>
  A potential match: its span in the description and the item, whose uuid, name, type,
  image and ids the source copies into the match.
\<close>

record potentialMatch =
  startIndex :: nat
  endIndex :: nat
  matched :: catalogItem
  nameLength :: nat

text \<open>The class \<^verbatim>\<open>[\s"',.:;+()[\]{}]\<close> of the word boundaries.\<close>

definition wordBoundary :: "char \<Rightarrow> bool" where
  "wordBoundary c =
     (isWhiteSpace c \<or> c = CHR 0x22 \<or> c = CHR 0x27 \<or> c \<in> set '',.:;+()[]{}'')"

text \<open>The match of an item at the start of the primary action name, if there is one.\<close>

definition primaryMatch :: "string \<Rightarrow> catalogItem \<Rightarrow> potentialMatch list" where
  "primaryMatch primaryActionNameLower item =
     (let itemNameLower = toLowerCase (itemName item);
          endIdx = length itemNameLower;
          afterChar = (if endIdx \<ge> length primaryActionNameLower then CHR '' ''
                       else primaryActionNameLower ! endIdx)
      in if (primaryActionNameLower = itemNameLower
             \<or> startsWith primaryActionNameLower (itemNameLower @ '' ''))
            \<and> wordBoundary afterChar
         then [\<lparr> startIndex = 0, endIndex = endIdx, matched = item,
                  nameLength = length (itemName item) \<rparr>]
         else [])"

text \<open>
  The \<^verbatim>\<open>while\<close> loop over the occurrences of an item's name in the description.  For
  an empty name \<^verbatim>\<open>indexOf\<close> finds an occurrence at every position and, past the end,
  again and again at the end, so the loop does not stop; the model counts the rounds
  down and gives \<open>None\<close> when they are used up.
\<close>

fun secondaryMatches ::
  "nat \<Rightarrow> string \<Rightarrow> catalogItem \<Rightarrow> nat \<Rightarrow> potentialMatch list \<Rightarrow> potentialMatch list option" where
  "secondaryMatches 0 descriptionLower item searchIndex potentialMatches = None"
| "secondaryMatches (Suc rounds) descriptionLower item searchIndex potentialMatches =
     (case indexOfFrom descriptionLower (toLowerCase (itemName item)) searchIndex of
        None \<Rightarrow> Some potentialMatches
      | Some startIdx \<Rightarrow>
          (let endIdx = startIdx + length (toLowerCase (itemName item));
               beforeChar = (if startIdx = 0 then CHR '' '' else descriptionLower ! (startIdx - 1));
               afterChar = (if endIdx = length descriptionLower then CHR '' ''
                            else descriptionLower ! endIdx)
           in secondaryMatches rounds descriptionLower item (startIdx + 1)
                (if wordBoundary beforeChar \<and> wordBoundary afterChar
                    \<and> \<not> list_ex (\<lambda>pm. uuid (matched pm) = uuid item \<and> startIndex pm = 0)
                               potentialMatches
                 then potentialMatches @
                        [\<lparr> startIndex = startIdx, endIndex = endIdx, matched = item,
                           nameLength = length (itemName item) \<rparr>]
                 else potentialMatches)))"

text \<open>The \<^verbatim>\<open>forEach\<close> over the master list.\<close>

fun scanItems ::
  "nat \<Rightarrow> string \<Rightarrow> catalogItem list \<Rightarrow> potentialMatch list \<Rightarrow> potentialMatch list option" where
  "scanItems rounds cleanedDescription [] potentialMatches = Some potentialMatches"
| "scanItems rounds cleanedDescription (item # items) potentialMatches =
     (case secondaryMatches rounds (toLowerCase cleanedDescription) item 0
             (potentialMatches
                @ primaryMatch (toLowerCase (primaryActionName cleanedDescription)) item) of
        None \<Rightarrow> None
      | Some found \<Rightarrow> scanItems rounds cleanedDescription items found)"

text \<open>\<^verbatim>\<open>/\(Rank \d+\)/i.test(cleanedDescription)\<close>.\<close>

definition descriptionIndicatesRank :: "string \<Rightarrow> bool" where
  "descriptionIndicatesRank d =
     list_ex (\<lambda>k. startsWithCI (drop k d) ''(Rank ''
                  \<and> takeWhile isDigit (drop (k + 6) d) \<noteq> []
                  \<and> startsWith (dropWhile isDigit (drop (k + 6) d)) '')'')
       [0 ..< Suc (length d)]"

text \<open>The comparator of the sort of the potential matches.\<close>

definition compareMatches :: "bool \<Rightarrow> potentialMatch \<Rightarrow> potentialMatch \<Rightarrow> int" where
  "compareMatches indicatesRank a b =
     (if startIndex a = 0 \<and> startIndex b \<noteq> 0 then - 1
      else if startIndex a \<noteq> 0 \<and> startIndex b = 0 then 1
      else if indicatesRank
              \<and> toLowerCase (itemName (matched a)) = toLowerCase (itemName (matched b))
              \<and> itemType (matched a) = SpellItem \<and> itemType (matched b) \<noteq> SpellItem then - 1
      else if indicatesRank
              \<and> toLowerCase (itemName (matched a)) = toLowerCase (itemName (matched b))
              \<and> itemType (matched a) \<noteq> SpellItem \<and> itemType (matched b) = SpellItem then 1
      else if nameLength a \<noteq> nameLength b then int (nameLength b) - int (nameLength a)
      else int (startIndex a) - int (startIndex b))"

text \<open>
  The greedy pass: a match is confirmed when none of its indices is covered yet, and then
  covers them.
\<close>

definition acceptMatch ::
  "potentialMatch list \<times> nat set \<Rightarrow> potentialMatch \<Rightarrow> potentialMatch list \<times> nat set" where
  "acceptMatch state m =
     (case state of (confirmed, coveredIndices) \<Rightarrow>
        if list_ex (\<lambda>i. i \<in> coveredIndices) [startIndex m ..< endIndex m]
        then (confirmed, coveredIndices)
        else (confirmed @ [m], coveredIndices \<union> set [startIndex m ..< endIndex m]))"

definition resolveOverlaps :: "potentialMatch list \<Rightarrow> potentialMatch list" where
  "resolveOverlaps sortedMatches = fst (foldl acceptMatch ([], {}) sortedMatches)"

text \<open>
  The confirmed matches of a cleaned description against a master list: the scan, the sort
  and the greedy pass.  \<open>None\<close> when the scan does not come to an end within the rounds
  given.
\<close>

definition confirmedMatches ::
  "nat \<Rightarrow> string \<Rightarrow> catalogItem list \<Rightarrow> potentialMatch list option" where
  "confirmedMatches rounds cleanedDescription masterItemList =
     map_option
       (\<lambda>potentialMatches.
          resolveOverlaps
            (sortBy (compareMatches (descriptionIndicatesRank cleanedDescription))
               potentialMatches))
       (scanItems rounds cleanedDescription masterItemList [])"

text \<open>The character spans of two matches have no index in common.\<close>

definition spansDisjoint :: "potentialMatch \<Rightarrow> potentialMatch \<Rightarrow> bool" where
  "spansDisjoint a b = ({startIndex a ..< endIndex a} \<inter> {startIndex b ..< endIndex b} = {})"

fun pairwiseDisjoint :: "potentialMatch list \<Rightarrow> bool" where
  "pairwiseDisjoint [] = True"
| "pairwiseDisjoint (m # ms) = (list_all (spansDisjoint m) ms \<and> pairwiseDisjoint ms)"

section \<open>The turn state machine as a whole\<close>

text \<open>
  The events that change the flags of an actor during a turn, and their effect: accepting
  AI control, confirming an action, adjusting the penalty by hand, skipping a suggestion,
  a successful strike seen in the chat, and a call of the request cycle.
\<close>

datatype machineEvent =
    AcceptControl clickContext
  | ConfirmAction clickContext "int option" string "string list"
  | ManualMAPAdjust clickContext "int option"
  | SkipAction clickContext string
  | StrikeRecorded string string
  | Request cycleEnv cycleArgs

fun applyEvent :: "actorFlags \<Rightarrow> machineEvent \<Rightarrow> actorFlags" where
  "applyEvent flags (AcceptControl ctx) = onAcceptControlClick ctx flags"
| "applyEvent flags (ConfirmAction ctx c d ts) = snd (onConfirmActionClick ctx c d ts flags)"
| "applyEvent flags (ManualMAPAdjust ctx v) = onManualMAPAdjust ctx v flags"
| "applyEvent flags (SkipAction ctx notes) = fst (onSkipActionClick ctx notes flags)"
| "applyEvent flags (StrikeRecorded t a) = recordSuccessfulStrike t a flags"
| "applyEvent flags (Request env args) = flagsAfter (requestCycle env args flags)"

text \<open>An actor on which the module has set no flag.\<close>

definition noFlags :: actorFlags where
  "noFlags = \<lparr> TURN_STATE = None, IS_PROCESSING = False, CACHED_STRIKES = None \<rparr>"

text \<open>
  The invariant of the turn state: the remaining actions are not negative and the multiple
  attack penalty is one of 0, 4, 5, 8 and 10.
\<close>

definition turnStateOk :: "turnState \<Rightarrow> bool" where
  "turnStateOk ts =
     (0 \<le> actionsRemaining ts \<and>
      (case currentMAP ts of Some m \<Rightarrow> m \<in> set [0, 4, 5, 8, 10] | None \<Rightarrow> False))"

definition flagsOk :: "actorFlags \<Rightarrow> bool" where
  "flagsOk flags = (case TURN_STATE flags of None \<Rightarrow> True | Some ts \<Rightarrow> turnStateOk ts)"

section \<open>Example data\<close>

text \<open>A click on a card of the combatant whose turn it is.\<close>

definition currentTurnClick :: clickContext where
  "currentTurnClick = \<lparr> combatActive = True, actorFound = True, isCurrentCombatant = True \<rparr>"

text \<open>A game state with the given conditions on the acting combatant and nothing else.\<close>

definition stateWithConditions :: "conditionEffect list \<Rightarrow> gameState" where
  "stateWithConditions conds =
     \<lparr> conditionsEffects = conds, passiveAbilities = [], actionsAndActionFeatsList = [],
       strikes = None, recentEvents = Some [], targets = None \<rparr>"

text \<open>
  The world during one call: it is the combatant's turn, the game state is gathered, the
  LLM is configured and gives the reply, and the identification of the description is
  \<open>r\<close>.
\<close>

definition worldWith :: "gameState \<Rightarrow> string \<Rightarrow> identifyResult \<Rightarrow> cycleEnv" where
  "worldWith gs reply r =
     \<lparr> combatantValid = True, turnStillActive = True, gatheredState = Some gs,
       llmSettingsPresent = True, llmReply = Some reply, identified = r,
       actorName = ''Ogre'', actorId = ''actor1'' \<rparr>"

text \<open>The arguments of the first call of a turn.\<close>

definition firstCall :: cycleArgs where
  "firstCall = \<lparr> skippedAction = None, manualNotesArg = None, updatedTurnState = None \<rparr>"

text \<open>A turn in progress with one action left, as the flag and as the state handed on.\<close>

definition oneActionLeft :: turnState where
  "oneActionLeft = acceptedTurnState\<lparr>actionsRemaining := 1, currentMAP := Some 5\<rparr>"

definition oneActionLeftFlags :: actorFlags where
  "oneActionLeftFlags =
     \<lparr> TURN_STATE = Some oneActionLeft, IS_PROCESSING = True, CACHED_STRIKES = None \<rparr>"

definition oneActionLeftCall :: cycleArgs where
  "oneActionLeftCall =
     \<lparr> skippedAction = None, manualNotesArg = None, updatedTurnState = Some oneActionLeft \<rparr>"

text \<open>A reply that asks for two actions, for a spell that the catalog does not know.\<close>

definition twoActionReply :: string where
  "twoActionReply =
     ''ACTION: Fireball'' @ [CHR 0x0A] @ ''TARGET: Goblin'' @ [CHR 0x0A] @ ''COST: 2''"

text \<open>A reply that suggests Grab without the comma and target, and its identification.\<close>

definition grabReply :: string where
  "grabReply =
     ''ACTION: Grab the goblin'' @ [CHR 0x0A] @ ''TARGET: Goblin'' @ [CHR 0x0A] @ ''COST: 1''"

definition grabIdentified :: identifyResult where
  "grabIdentified =
     emptyIdentifyResult
       \<lparr> isGenericActionSuggestion := True, actionNameForLink := Some ''Grab'',
         actualActionCost := JNum 1, costSource := ''Action/Feat/Spell Item'',
         modifiedDescriptionWithActionLink := ''@UUID[Item.g1]{Grab} the goblin'' \<rparr>"

text \<open>The reply of the spec's example for the parser: no cost line.\<close>

definition strideReply :: string where
  "strideReply = ''ACTION: Stride'' @ [CHR 0x0A] @ ''TARGET: Self'' @ [CHR 0x0A]"

text \<open>The two catalog entries of the spec's example for the overlap resolution.\<close>

definition powerStrikeItem :: catalogItem where
  "powerStrikeItem =
     \<lparr> itemName = ''Power Strike'', uuid = ''Item.ps'', itemType = ActionItem,
       itemImg = None, itemId = Some ''ps'', entryId = None, itemIdentifier = None \<rparr>"

definition strikeItem :: catalogItem where
  "strikeItem =
     \<lparr> itemName = ''Strike'', uuid = ''Item.st'', itemType = StrikeItem,
       itemImg = None, itemId = Some ''st'', entryId = None, itemIdentifier = Some ''strike'' \<rparr>"

text \<open>
  Two unarmed strikes with the same attack bonus, as the game state lists them.  By the
  sum of \<open>dice * (die + 1) / 2\<close> plus flat modifiers the claw averages \<open>9 + 29 = 38\<close> and
  the jaws \<open>2.5 + 35 = 37.5\<close>.
\<close>

definition clawStrike :: strike where
  "clawStrike =
     \<lparr> strikeName = Some ''Claw'', strikeLabel = None, strikeIdentifier = Some ''claw'',
       strikeSlug = None, imageUrl = None, strikeUuid = None, strikeItemUuid = None,
       bonuses = Some ''+20 / +15 / +10'', damage = Some ''2d8+29'',
       strikeTraits = TraitsString ''agile, unarmed'' \<rparr>"

definition jawsStrike :: strike where
  "jawsStrike =
     \<lparr> strikeName = Some ''Jaws'', strikeLabel = None, strikeIdentifier = Some ''jaws'',
       strikeSlug = None, imageUrl = None, strikeUuid = None, strikeItemUuid = None,
       bonuses = Some ''+20 / +15 / +10'', damage = Some ''1d4+10d6'',
       strikeTraits = TraitsString ''unarmed'' \<rparr>"

section \<open>Properties of the cost arbiter\<close>

lemma includes_to_R [simp]: "includesStr ''R'' '' to '' = False"
  by code_simp

lemma includes_to_F [simp]: "includesStr ''F'' '' to '' = False"
  by code_simp

lemma llm_branch_concrete:
  "(if llmCost = JStr ''R'' \<or> llmCost = JStr ''F'' then llmCost
    else case parseInt llmCost of
      Some numericCost \<Rightarrow>
        if 1 \<le> numericCost \<and> numericCost \<le> 3 then JNum numericCost else JNum 1
    | None \<Rightarrow> JNum 1) \<in> concreteCosts"
  by (auto simp: concreteCosts_def split: option.splits)

lemma minimumOfRange_ranges:
  "c \<in> rangeCosts \<Longrightarrow> isVariableCost c \<and> minimumOfRange c \<in> concreteCosts"
  unfolding rangeCosts_def
  by (elim insertE emptyE; hypsubst; code_simp)

text \<open>
  C6.  For a resolution that is not a combo, whose catalog cost is a number (so not a
  range string) and whose cost source is not the LLM, the arbiter returns the catalog cost
  unchanged, whatever cost the LLM claimed.
\<close>

theorem catalog_cost_wins:
  assumes "\<not> isCombo r"
    and "actualActionCost r = JNum n"
    and "costSource r \<noteq> ''LLM''"
  shows "determineAuthoritativeCost r llmCost = JNum n"
  using assms
  by (simp add: determineAuthoritativeCost_def isVariableCost_def isSpecificCost_def)

text \<open>The spec's example: catalog cost 2, LLM cost 1, not a combo.\<close>

theorem catalog_cost_wins_witness:
  "determineAuthoritativeCost
     (emptyIdentifyResult\<lparr>actualActionCost := JNum 2, costSource := ''Action/Feat/Spell Item''\<rparr>)
     (JNum 1) = JNum 2"
  using catalog_cost_wins
    [of "emptyIdentifyResult\<lparr>actualActionCost := JNum 2, costSource := ''Action/Feat/Spell Item''\<rparr>"
        2 "JNum 1"]
  by (simp add: emptyIdentifyResult_def)

text \<open>
  C5, as the spec states it, fails: a catalog cost of 0 (which \<^verbatim>\<open>parseActionCostValue\<close>
  returns for a numeric \<^verbatim>\<open>0\<close>, and which \<^verbatim>\<open>formatParsedCostToDisplay\<close> prints as a
  free action) is a number from the catalog, so the catalog branch hands it through.
\<close>

theorem arbiter_returns_zero_counterexample:
  "determineAuthoritativeCost
     (emptyIdentifyResult\<lparr>actualActionCost := JNum 0, costSource := ''Action/Feat/Spell Item''\<rparr>)
     (JNum 1) = JNum 0
   \<and> JNum 0 \<notin> concreteCosts"
  by (simp add: determineAuthoritativeCost_def isVariableCost_def isSpecificCost_def
      emptyIdentifyResult_def concreteCosts_def)

lemma arbiter_never_null_or_range:
  "determineAuthoritativeCost r llmCost \<noteq> JNull \<and>
   (\<forall>s. determineAuthoritativeCost r llmCost = JStr s \<longrightarrow> s = ''R'' \<or> s = ''F'')"
  by (auto simp: determineAuthoritativeCost_def isSpecificCost_def minimumOfRange_def
      split: option.splits jsval.splits if_splits)

lemma arbiter_concrete_on_vocabulary:
  assumes "actualActionCost r \<in> {JNull} \<union> concreteCosts \<union> rangeCosts"
  shows "determineAuthoritativeCost r llmCost \<in> concreteCosts"
proof -
  let ?llm = "(if llmCost = JStr ''R'' \<or> llmCost = JStr ''F'' then llmCost
    else case parseInt llmCost of
      Some numericCost \<Rightarrow>
        if 1 \<le> numericCost \<and> numericCost \<le> 3 then JNum numericCost else JNum 1
    | None \<Rightarrow> JNum 1)"
  have llm: "?llm \<in> concreteCosts" by (rule llm_branch_concrete)
  consider (null) "actualActionCost r = JNull"
    | (num) n where "actualActionCost r = JNum n" "1 \<le> n" "n \<le> 3"
    | (rf) "actualActionCost r = JStr ''R'' \<or> actualActionCost r = JStr ''F''"
    | (range) "actualActionCost r \<in> rangeCosts"
    using assms by (auto simp: concreteCosts_def)
  then show ?thesis
  proof cases
    case null
    then show ?thesis
      using llm
      by (auto simp: determineAuthoritativeCost_def isVariableCost_def isSpecificCost_def
          concreteCosts_def split: option.splits)
  next
    case num
    then have "JNum n \<in> concreteCosts" by (auto simp: concreteCosts_def)
    with num show ?thesis
      using llm
      by (auto simp: determineAuthoritativeCost_def isVariableCost_def isSpecificCost_def
          concreteCosts_def split: option.splits)
  next
    case rf
    then show ?thesis
      using llm
      by (auto simp: determineAuthoritativeCost_def isVariableCost_def isSpecificCost_def
          concreteCosts_def split: option.splits)
  next
    case range
    from minimumOfRange_ranges [OF range]
    have v: "isVariableCost (actualActionCost r)"
      and m: "minimumOfRange (actualActionCost r) \<in> concreteCosts" by simp_all
    have s: "\<not> isSpecificCost (actualActionCost r)"
      using range by (auto simp: rangeCosts_def isSpecificCost_def)
    show ?thesis
      using v m s
      by (auto simp: determineAuthoritativeCost_def concreteCosts_def split: option.splits)
  qed
qed

text \<open>
  C5, amended.  The arbiter always returns one value that is a number, \<^verbatim>\<open>'R'\<close> or
  \<^verbatim>\<open>'F'\<close>: never null and never a range string.  The value is one of 1, 2, 3,
  \<^verbatim>\<open>'R'\<close>, \<^verbatim>\<open>'F'\<close> whenever the catalog cost is itself null, one of these
  concrete costs, or a range \<^verbatim>\<open>'m to n'\<close> with \<open>1 \<le> m \<le> n \<le> 3\<close>.
\<close>

theorem arbiter_returns_concrete_cost:
  "determineAuthoritativeCost r llmCost \<noteq> JNull \<and>
   (\<forall>s. determineAuthoritativeCost r llmCost = JStr s \<longrightarrow> s = ''R'' \<or> s = ''F'') \<and>
   (actualActionCost r \<in> {JNull} \<union> concreteCosts \<union> rangeCosts \<longrightarrow>
      determineAuthoritativeCost r llmCost \<in> concreteCosts)"
  using arbiter_never_null_or_range [of r llmCost] arbiter_concrete_on_vocabulary [of r llmCost]
  by blast

text \<open>A range from the catalog with an unusable LLM cost resolves to the range's minimum.\<close>

theorem arbiter_returns_concrete_cost_witness:
  "determineAuthoritativeCost (emptyIdentifyResult\<lparr>actualActionCost := JStr ''2 to 3''\<rparr>)
     JNull = JNum 2
   \<and> JNum 2 \<in> concreteCosts"
proof -
  have e: "determineAuthoritativeCost (emptyIdentifyResult\<lparr>actualActionCost := JStr ''2 to 3''\<rparr>)
     JNull = JNum 2"
    by code_simp
  have h: "actualActionCost (emptyIdentifyResult\<lparr>actualActionCost := JStr ''2 to 3''\<rparr>)
      \<in> {JNull} \<union> concreteCosts \<union> rangeCosts"
    by (simp add: rangeCosts_def)
  have "determineAuthoritativeCost (emptyIdentifyResult\<lparr>actualActionCost := JStr ''2 to 3''\<rparr>)
     JNull \<in> concreteCosts"
    using arbiter_returns_concrete_cost
      [of "emptyIdentifyResult\<lparr>actualActionCost := JStr ''2 to 3''\<rparr>" JNull] h
    by blast
  then show ?thesis using e by simp
qed

section \<open>Properties of the turn state machine\<close>

lemma updateMAP_unchanged_without_attack:
  "''attack'' \<notin> set t \<Longrightarrow> updateMAPBasedOnTrait flags t = flags"
  by (simp add: updateMAPBasedOnTrait_def)

lemma updateMAP_attack_step:
  assumes "TURN_STATE flags = Some ts" and "currentMAP ts = Some m" and "''attack'' \<in> set t"
  shows "\<exists>ts'. TURN_STATE (updateMAPBasedOnTrait flags t) = Some ts' \<and>
           currentMAP ts' = Some (if m = 0 then (if ''agile'' \<in> set t then 4 else 5)
                                  else (if ''agile'' \<in> set t then 8 else 10))"
  using assms by (auto simp: updateMAPBasedOnTrait_def Let_def)

text \<open>
  C4.  Starting from a penalty of 0, after any sequence of confirmed actions the penalty
  in the flag is 0 if none of them was an attack; 4 (agile) or 5 after exactly one attack,
  by that attack's agile trait; and 8 (agile) or 10 after two or more attacks, by the agile
  trait of the last one.  An action without the attack trait leaves the flags as they are.
\<close>

theorem map_progression:
  assumes "TURN_STATE flags = Some ts" and "currentMAP ts = Some 0"
  shows "(\<exists>ts'. TURN_STATE (foldl updateMAPBasedOnTrait flags acts) = Some ts' \<and>
           currentMAP ts' =
             Some (case filter (\<lambda>t. ''attack'' \<in> set t) acts of
                     [] \<Rightarrow> 0
                   | [a] \<Rightarrow> (if ''agile'' \<in> set a then 4 else 5)
                   | a # b # rest \<Rightarrow> (if ''agile'' \<in> set (last (b # rest)) then 8 else 10)))
         \<and> (\<forall>fl t. ''attack'' \<notin> set t \<longrightarrow> updateMAPBasedOnTrait fl t = fl)"
proof
  show "\<forall>fl t. ''attack'' \<notin> set t \<longrightarrow> updateMAPBasedOnTrait fl t = fl"
    by (simp add: updateMAP_unchanged_without_attack)
next
  show "\<exists>ts'. TURN_STATE (foldl updateMAPBasedOnTrait flags acts) = Some ts' \<and>
           currentMAP ts' =
             Some (case filter (\<lambda>t. ''attack'' \<in> set t) acts of
                     [] \<Rightarrow> 0
                   | [a] \<Rightarrow> (if ''agile'' \<in> set a then 4 else 5)
                   | a # b # rest \<Rightarrow> (if ''agile'' \<in> set (last (b # rest)) then 8 else 10))"
  proof (induction acts rule: rev_induct)
    case Nil
    then show ?case using assms by simp
  next
    case (snoc x xs)
    then obtain ts1 where ts1: "TURN_STATE (foldl updateMAPBasedOnTrait flags xs) = Some ts1"
      and m1: "currentMAP ts1 =
             Some (case filter (\<lambda>t. ''attack'' \<in> set t) xs of
                     [] \<Rightarrow> 0
                   | [a] \<Rightarrow> (if ''agile'' \<in> set a then 4 else 5)
                   | a # b # rest \<Rightarrow> (if ''agile'' \<in> set (last (b # rest)) then 8 else 10))"
      by blast
    show ?case
    proof (cases "''attack'' \<in> set x")
      case False
      then show ?thesis using ts1 m1 by (simp add: updateMAP_unchanged_without_attack)
    next
      case True
      from updateMAP_attack_step [OF ts1 m1 True]
      obtain ts2 where ts2: "TURN_STATE (updateMAPBasedOnTrait (foldl updateMAPBasedOnTrait flags xs) x) = Some ts2"
        and m2: "currentMAP ts2 = Some (if (case filter (\<lambda>t. ''attack'' \<in> set t) xs of
                     [] \<Rightarrow> 0
                   | [a] \<Rightarrow> (if ''agile'' \<in> set a then 4 else 5)
                   | a # b # rest \<Rightarrow> (if ''agile'' \<in> set (last (b # rest)) then 8 else 10)) = (0::int)
                   then (if ''agile'' \<in> set x then 4 else 5)
                   else (if ''agile'' \<in> set x then 8 else 10))"
        by blast
      show ?thesis using ts2 m2 True
        by (auto split: list.splits)
    qed
  qed
qed

theorem map_progression_witness:
  "map_option currentMAP
     (TURN_STATE (foldl updateMAPBasedOnTrait (onAcceptControlClick currentTurnClick noFlags)
        [[''attack'', ''agile''], [''move''], [''attack''], [''attack'']]))
   = Some (Some 10)"
  using map_progression
    [of "onAcceptControlClick currentTurnClick noFlags" acceptedTurnState
        "[[''attack'', ''agile''], [''move''], [''attack''], [''attack'']]"]
  by (auto simp: onAcceptControlClick_def currentTurnClick_def acceptedTurnState_def)

lemma updateMAP_preserves_ok:
  "flagsOk flags \<Longrightarrow> flagsOk (updateMAPBasedOnTrait flags t)"
  by (auto simp: flagsOk_def turnStateOk_def updateMAPBasedOnTrait_def Let_def
      split: option.splits)

lemma clear_ok: "flagsOk (clearAITurnFlags flags)"
  by (simp add: flagsOk_def clearAITurnFlags_def)

lemma confirm_new_state_ok:
  assumes "flagsOk flags"
    and "fst (onConfirmActionClick ctx c d tr flags) = ConfirmedAction ts'"
  shows "turnStateOk ts'"
  using assms
  by (auto simp: flagsOk_def turnStateOk_def onConfirmActionClick_def Let_def
      split: option.splits if_splits prod.splits)

lemma deducted_ok:
  assumes "flagsOk flags" and "TURN_STATE flags = Some cur" and "0 \<le> n"
  shows "flagsOk (flags\<lparr>TURN_STATE := Some (cur\<lparr>actionsRemaining := n,
                 actionsTakenDescriptions := a, narrativesTaken := b, manualNotes := m\<rparr>)\<rparr>)"
  using assms by (simp add: flagsOk_def turnStateOk_def)

lemma confirm_preserves_ok:
  assumes "flagsOk flags"
  shows "flagsOk (snd (onConfirmActionClick ctx c d tr flags))"
proof (cases "TURN_STATE flags")
  case None
  then show ?thesis
    using assms by (simp add: onConfirmActionClick_def clear_ok)
next
  case (Some cur)
  show ?thesis
  proof (cases c)
    case None
    then show ?thesis
      using assms Some by (simp add: onConfirmActionClick_def clear_ok)
  next
    case (Some v)
    obtain x y where xy: "extractDescription d = (x, y)" by (cases "extractDescription d") auto
    have key: "flagsOk (updateMAPBasedOnTrait (flags\<lparr>TURN_STATE := Some (cur\<lparr>actionsRemaining := n,
                 actionsTakenDescriptions := a, narrativesTaken := b,
                 manualNotes := []\<rparr>)\<rparr>) tr)" if "0 \<le> n" for n a b
      using assms \<open>TURN_STATE flags = Some cur\<close> that
      by (intro updateMAP_preserves_ok deducted_ok) simp_all
    show ?thesis
      using assms Some \<open>TURN_STATE flags = Some cur\<close> xy
      by (auto simp: onConfirmActionClick_def clear_ok Let_def max_def intro!: key)
  qed
qed

lemma beforePrompt_Inl_flags:
  "beforePrompt env args flags = Inl r \<Longrightarrow>
     flagsAfter r = flags \<or> flagsAfter r = clearAITurnFlags flags"
  unfolding beforePrompt_def Let_def
  by (simp add: ended_def caught_def split: if_splits option.splits) auto

lemma beforePrompt_Inr_flags:
  "beforePrompt env args flags = Inr (ts, gs, fl) \<Longrightarrow> TURN_STATE fl = TURN_STATE flags"
  unfolding beforePrompt_def Let_def
  by (simp split: if_splits option.splits) auto

lemma cleared_turn_state [simp]: "TURN_STATE (clearAITurnFlags flags) = None"
  by (simp add: clearAITurnFlags_def)

lemma beforePrerequisites_Inl_flags:
  assumes "beforePrerequisites env args flags = Inl r"
  shows "TURN_STATE (flagsAfter r) = None \<or> TURN_STATE (flagsAfter r) = TURN_STATE flags"
proof (cases "beforePrompt env args flags")
  case (Inl r')
  with assms have "r = r'" by (simp add: beforePrerequisites_def)
  with beforePrompt_Inl_flags [OF Inl] show ?thesis by auto
next
  case (Inr x)
  obtain ts gs fl where x: "x = (ts, gs, fl)" by (cases x) auto
  have fl: "TURN_STATE fl = TURN_STATE flags"
    using Inr x beforePrompt_Inr_flags by simp
  show ?thesis
  proof (cases "parsedReply env")
    case (Inl er)
    obtain e rq where "er = (e, rq)" by (cases er) auto
    with assms Inr x Inl show ?thesis
      by (auto simp: beforePrerequisites_def caught_def)
  next
    case (Inr parsed)
    with assms \<open>beforePrompt env args flags = Inr x\<close> x fl show ?thesis
      by (auto simp: beforePrerequisites_def ended_def split: if_splits)
  qed
qed

lemma beforePrerequisites_Inr_flags:
  assumes "beforePrerequisites env args flags = Inr (ts, gs, p, fl)"
  shows "TURN_STATE fl = TURN_STATE flags"
proof (cases "beforePrompt env args flags")
  case (Inl r')
  with assms show ?thesis by (simp add: beforePrerequisites_def)
next
  case (Inr x)
  obtain ts1 gs1 fl1 where x: "x = (ts1, gs1, fl1)" by (cases x) auto
  have fl: "TURN_STATE fl1 = TURN_STATE flags"
    using Inr x beforePrompt_Inr_flags by simp
  show ?thesis
  proof (cases "parsedReply env")
    case (Inl er)
    obtain e rq where "er = (e, rq)" by (cases er) auto
    with assms Inr x Inl show ?thesis
      by (auto simp: beforePrerequisites_def)
  next
    case (Inr parsed)
    with assms \<open>beforePrompt env args flags = Inr x\<close> x fl show ?thesis
      by (auto simp: beforePrerequisites_def split: if_splits)
  qed
qed

lemma beforeCostValidation_Inl_flags:
  assumes "beforeCostValidation env args flags = Inl r"
  shows "TURN_STATE (flagsAfter r) = None \<or> TURN_STATE (flagsAfter r) = TURN_STATE flags"
proof (cases "beforePrerequisites env args flags")
  case (Inl r')
  with assms have "r = r'" by (simp add: beforeCostValidation_def)
  with beforePrerequisites_Inl_flags [OF Inl] show ?thesis by auto
next
  case (Inr x)
  obtain ts gs p fl where x: "x = (ts, gs, p, fl)" by (cases x) auto
  have fl: "TURN_STATE fl = TURN_STATE flags"
    using Inr x beforePrerequisites_Inr_flags by simp
  show ?thesis
    using assms Inr x fl
    by (cases "prerequisiteCheck env gs ts p")
      (auto simp: beforeCostValidation_def ended_def)
qed

lemma beforeCostValidation_Inr_flags:
  assumes "beforeCostValidation env args flags = Inr (ts, p, fl)"
  shows "TURN_STATE fl = TURN_STATE flags"
proof (cases "beforePrerequisites env args flags")
  case (Inl r')
  with assms show ?thesis by (simp add: beforeCostValidation_def)
next
  case (Inr x)
  obtain ts1 gs1 p1 fl1 where x: "x = (ts1, gs1, p1, fl1)" by (cases x) auto
  have fl: "TURN_STATE fl1 = TURN_STATE flags"
    using Inr x beforePrerequisites_Inr_flags by simp
  show ?thesis
    using assms Inr x fl
    by (cases "prerequisiteCheck env gs1 ts1 p1")
      (auto simp: beforeCostValidation_def)
qed

lemma presentSuggestion_flags:
  "TURN_STATE (flagsAfter (presentSuggestion env ts p fl)) = None \<or>
   TURN_STATE (flagsAfter (presentSuggestion env ts p fl)) = TURN_STATE fl"
  by (simp add: presentSuggestion_def Let_def caught_def ended_def)

lemma requestCycle_flags:
  "TURN_STATE (flagsAfter (requestCycle env args flags)) = None \<or>
   TURN_STATE (flagsAfter (requestCycle env args flags)) = TURN_STATE flags"
proof (cases "beforeCostValidation env args flags")
  case (Inl r)
  then show ?thesis
    using beforeCostValidation_Inl_flags [OF Inl]
    by (simp add: requestCycle_def)
next
  case (Inr x)
  obtain ts p fl where x: "x = (ts, p, fl)" by (cases x) auto
  with Inr have "TURN_STATE fl = TURN_STATE flags"
    using beforeCostValidation_Inr_flags by simp
  then show ?thesis
    using Inr x presentSuggestion_flags [of env ts p fl]
    by (auto simp add: requestCycle_def)
qed

lemma manualMAP_preserves_ok:
  "flagsOk flags \<Longrightarrow> flagsOk (onManualMAPAdjust ctx v flags)"
  by (auto simp: flagsOk_def turnStateOk_def onManualMAPAdjust_def split: option.splits)

lemma accept_preserves_ok:
  "flagsOk flags \<Longrightarrow> flagsOk (onAcceptControlClick ctx flags)"
  by (auto simp: flagsOk_def turnStateOk_def onAcceptControlClick_def acceptedTurnState_def)

lemma skip_preserves_ok:
  "flagsOk flags \<Longrightarrow> flagsOk (fst (onSkipActionClick ctx notes flags))"
  by (auto simp: flagsOk_def turnStateOk_def onSkipActionClick_def clearAITurnFlags_def
      split: option.splits)

lemma strike_preserves_ok:
  "flagsOk flags \<Longrightarrow> flagsOk (recordSuccessfulStrike t a flags)"
  by (auto simp: flagsOk_def turnStateOk_def recordSuccessfulStrike_def split: option.splits)

lemma request_preserves_ok:
  "flagsOk flags \<Longrightarrow> flagsOk (flagsAfter (requestCycle env args flags))"
  using requestCycle_flags [of env args flags]
  by (auto simp: flagsOk_def)

lemma applyEvent_preserves_ok:
  "flagsOk flags \<Longrightarrow> flagsOk (applyEvent flags ev)"
  by (cases ev)
    (simp_all add: accept_preserves_ok confirm_preserves_ok manualMAP_preserves_ok
      skip_preserves_ok strike_preserves_ok request_preserves_ok)

lemma run_preserves_ok:
  "flagsOk flags \<Longrightarrow> flagsOk (foldl applyEvent flags events)"
  by (induction events arbitrary: flags) (simp_all add: applyEvent_preserves_ok)

lemma recalculate_ok:
  "turnStateOk ts \<Longrightarrow> turnStateOk (recalculateStartActions conds ts)"
  by (simp add: turnStateOk_def recalculateStartActions_def Let_def)

lemma startTurnState_ok:
  "(case updatedTurnState args of None \<Rightarrow> True | Some ts \<Rightarrow> turnStateOk ts)
     \<Longrightarrow> turnStateOk (startTurnState args)"
  by (auto simp: turnStateOk_def startTurnState_def Let_def split: option.splits)

text \<open>
  C2.  Whatever events reach an actor that starts without flags, a turn state in its flag
  has remaining actions that are not negative and a multiple attack penalty among 0, 4, 5,
  8 and 10.  So has the state that the first call of a turn works with after the
  recalculation of the start actions.  Each single operation keeps the invariant: the
  automatic advance of the penalty, the manual override, and a confirmation, whose new
  state (the one handed to the next request) satisfies it as well.
\<close>

theorem turn_state_invariant:
  "flagsOk (foldl applyEvent noFlags events)
   \<and> turnStateOk (recalculateStartActions conds
        (startTurnState \<lparr> skippedAction = sk, manualNotesArg = notes, updatedTurnState = None \<rparr>))
   \<and> (flagsOk flags \<longrightarrow> flagsOk (updateMAPBasedOnTrait flags tr))
   \<and> (flagsOk flags \<longrightarrow> flagsOk (onManualMAPAdjust ctx v flags))
   \<and> (flagsOk flags \<longrightarrow>
        flagsOk (snd (onConfirmActionClick ctx c d tr flags))
        \<and> (\<forall>ts'. fst (onConfirmActionClick ctx c d tr flags) = ConfirmedAction ts'
               \<longrightarrow> turnStateOk ts'))"
proof -
  have "flagsOk noFlags" by (simp add: flagsOk_def noFlags_def)
  then have a: "flagsOk (foldl applyEvent noFlags events)" by (rule run_preserves_ok)
  have b: "turnStateOk (recalculateStartActions conds
        (startTurnState \<lparr> skippedAction = sk, manualNotesArg = notes, updatedTurnState = None \<rparr>))"
    by (intro recalculate_ok startTurnState_ok) simp
  show ?thesis
    using a b updateMAP_preserves_ok manualMAP_preserves_ok confirm_preserves_ok
      confirm_new_state_ok
    by blast
qed

text \<open>
  A turn: control is accepted, a one-action attack is confirmed, the penalty is set to 10
  by hand, and a two-action move is confirmed.
\<close>

theorem turn_state_invariant_witness:
  "flagsOk (foldl applyEvent noFlags
      [AcceptControl currentTurnClick,
       ConfirmAction currentTurnClick (Some 1) ''Strike'' [''attack''],
       ManualMAPAdjust currentTurnClick (Some 10),
       ConfirmAction currentTurnClick (Some 2) ''Stride'' []])
   \<and> map_option (\<lambda>ts. (actionsRemaining ts, currentMAP ts))
       (TURN_STATE (foldl applyEvent noFlags
          [AcceptControl currentTurnClick,
           ConfirmAction currentTurnClick (Some 1) ''Strike'' [''attack''],
           ManualMAPAdjust currentTurnClick (Some 10),
           ConfirmAction currentTurnClick (Some 2) ''Stride'' []]))
     = Some (0, Some 10)"
proof -
  have e: "map_option (\<lambda>ts. (actionsRemaining ts, currentMAP ts))
       (TURN_STATE (foldl applyEvent noFlags
          [AcceptControl currentTurnClick,
           ConfirmAction currentTurnClick (Some 1) ''Strike'' [''attack''],
           ManualMAPAdjust currentTurnClick (Some 10),
           ConfirmAction currentTurnClick (Some 2) ''Stride'' []]))
     = Some (0, Some 10)"
    by code_simp
  show ?thesis
    using e turn_state_invariant
      [where events = "[AcceptControl currentTurnClick,
           ConfirmAction currentTurnClick (Some 1) ''Strike'' [''attack''],
           ManualMAPAdjust currentTurnClick (Some 10),
           ConfirmAction currentTurnClick (Some 2) ''Stride'' []]"]
    by simp
qed

section \<open>Properties of the request cycle\<close>

lemma recalculated_actions:
  "actionsRemaining (recalculateStartActions conds ts) =
     max 0 (3 - max (conditionValue ''stunned'' conds) (conditionValue ''slowed'' conds))"
  by (simp add: recalculateStartActions_def Let_def)

lemma fresh_actions:
  "updatedTurnState args = None \<Longrightarrow> actionsRemaining (startTurnState args) = 3"
  by (simp add: startTurnState_def Let_def)

text \<open>
  C3.  On the first call of a turn (no turn state handed in), with the combatant's turn
  still on and the game state gathered, the remaining actions are
  \<open>max 0 (3 - max stunned slowed)\<close>, from the values of the first condition whose name
  starts with "stunned" and with "slowed".  When that is 0 the call ends at once: the
  zero-action message is posted with the condition changes, the flags are cleared and no
  suggestion is requested from the LLM.  Otherwise the call goes on to the prompt with
  that turn state.
\<close>

theorem start_of_turn_actions:
  assumes "combatantValid env" and "turnStillActive env"
    and "updatedTurnState args = None"
    and "gatheredState env = Some gs"
  shows "actionsRemaining (recalculateStartActions (conditionsEffects gs) (startTurnState args)) =
           max 0 (3 - max (conditionValue ''stunned'' (conditionsEffects gs))
                          (conditionValue ''slowed'' (conditionsEffects gs)))
         \<and> (actionsRemaining (recalculateStartActions (conditionsEffects gs) (startTurnState args)) = 0
              \<longrightarrow> requestNextAISuggestion (env # envs) args flags =
                    Some \<lparr> outcome = ZeroActionStart
                                       (conditionChange (conditionValue ''stunned'' (conditionsEffects gs)))
                                       (conditionChange (conditionValue ''slowed'' (conditionsEffects gs))),
                           flagsAfter = clearAITurnFlags flags,
                           suggestionRequested = False, notifications = [] \<rparr>)
         \<and> (actionsRemaining (recalculateStartActions (conditionsEffects gs) (startTurnState args)) \<noteq> 0
              \<longrightarrow> (\<exists>fl. beforePrompt env args flags =
                     Inr (recalculateStartActions (conditionsEffects gs) (startTurnState args), gs, fl)))"
proof (intro conjI impI)
  show "actionsRemaining (recalculateStartActions (conditionsEffects gs) (startTurnState args)) =
           max 0 (3 - max (conditionValue ''stunned'' (conditionsEffects gs))
                          (conditionValue ''slowed'' (conditionsEffects gs)))"
    by (rule recalculated_actions)
next
  assume z: "actionsRemaining (recalculateStartActions (conditionsEffects gs) (startTurnState args)) = 0"
  have bp: "beforePrompt env args flags =
      Inl (ended (ZeroActionStart
                    (conditionChange (conditionValue ''stunned'' (conditionsEffects gs)))
                    (conditionChange (conditionValue ''slowed'' (conditionsEffects gs))))
             (clearAITurnFlags flags) False)"
    using assms z fresh_actions [OF assms(3)]
    by (simp add: beforePrompt_def Let_def) (simp add: recalculateStartActions_def Let_def)
  then have "requestCycle env args flags =
      ended (ZeroActionStart
                    (conditionChange (conditionValue ''stunned'' (conditionsEffects gs)))
                    (conditionChange (conditionValue ''slowed'' (conditionsEffects gs))))
             (clearAITurnFlags flags) False"
    by (simp add: requestCycle_def beforeCostValidation_def beforePrerequisites_def)
  then show "requestNextAISuggestion (env # envs) args flags =
                    Some \<lparr> outcome = ZeroActionStart
                                       (conditionChange (conditionValue ''stunned'' (conditionsEffects gs)))
                                       (conditionChange (conditionValue ''slowed'' (conditionsEffects gs))),
                           flagsAfter = clearAITurnFlags flags,
                           suggestionRequested = False, notifications = [] \<rparr>"
    by (simp add: ended_def)
next
  assume nz: "actionsRemaining (recalculateStartActions (conditionsEffects gs) (startTurnState args)) \<noteq> 0"
  show "\<exists>fl. beforePrompt env args flags =
                     Inr (recalculateStartActions (conditionsEffects gs) (startTurnState args), gs, fl)"
    using assms nz fresh_actions [OF assms(3)]
    by (simp add: beforePrompt_def Let_def)
qed

text \<open>The spec's examples: stunned 4 gives no action and ends the turn; stunned 2 gives one.\<close>

theorem start_of_turn_actions_witness:
  "requestNextAISuggestion
     [worldWith (stateWithConditions [\<lparr> condName = ''Stunned'', condValue = Some 4 \<rparr>])
        [] emptyIdentifyResult]
     firstCall noFlags
   = Some \<lparr> outcome = ZeroActionStart 3 0, flagsAfter = noFlags,
            suggestionRequested = False, notifications = [] \<rparr>
   \<and> actionsRemaining
       (recalculateStartActions
          [\<lparr> condName = ''Stunned'', condValue = Some 2 \<rparr>,
           \<lparr> condName = ''Slowed'', condValue = None \<rparr>]
          (startTurnState firstCall)) = 1"
proof -
  have v4: "conditionValue ''stunned'' [\<lparr> condName = ''Stunned'', condValue = Some 4 \<rparr>] = 4"
    and s4: "conditionValue ''slowed'' [\<lparr> condName = ''Stunned'', condValue = Some 4 \<rparr>] = 0"
    and v2: "conditionValue ''stunned'' [\<lparr> condName = ''Stunned'', condValue = Some 2 \<rparr>,
           \<lparr> condName = ''Slowed'', condValue = None \<rparr>] = 2"
    and s2: "conditionValue ''slowed'' [\<lparr> condName = ''Stunned'', condValue = Some 2 \<rparr>,
           \<lparr> condName = ''Slowed'', condValue = None \<rparr>] = 0"
    by code_simp+
  have first: "requestNextAISuggestion
     [worldWith (stateWithConditions [\<lparr> condName = ''Stunned'', condValue = Some 4 \<rparr>])
        [] emptyIdentifyResult]
     firstCall noFlags
   = Some \<lparr> outcome = ZeroActionStart 3 0, flagsAfter = noFlags,
            suggestionRequested = False, notifications = [] \<rparr>"
    using start_of_turn_actions
      [of "worldWith (stateWithConditions [\<lparr> condName = ''Stunned'', condValue = Some 4 \<rparr>])
             [] emptyIdentifyResult"
          firstCall "stateWithConditions [\<lparr> condName = ''Stunned'', condValue = Some 4 \<rparr>]"
          "[]" noFlags]
    by (simp add: worldWith_def firstCall_def stateWithConditions_def v4 s4 conditionChange_def
        clearAITurnFlags_def noFlags_def)
  have second: "actionsRemaining
       (recalculateStartActions
          [\<lparr> condName = ''Stunned'', condValue = Some 2 \<rparr>,
           \<lparr> condName = ''Slowed'', condValue = None \<rparr>]
          (startTurnState firstCall)) = 1"
    using start_of_turn_actions
      [of "worldWith (stateWithConditions [\<lparr> condName = ''Stunned'', condValue = Some 2 \<rparr>,
           \<lparr> condName = ''Slowed'', condValue = None \<rparr>]) [] emptyIdentifyResult"
          firstCall "stateWithConditions [\<lparr> condName = ''Stunned'', condValue = Some 2 \<rparr>,
           \<lparr> condName = ''Slowed'', condValue = None \<rparr>]"
          "[]" noFlags]
    by (simp add: worldWith_def firstCall_def stateWithConditions_def v2 s2)
  show ?thesis using first second by simp
qed

text \<open>
  C1, as the spec states it, fails in its last part: the error is thrown inside the
  \<^verbatim>\<open>try\<close> of the cycle, whose \<^verbatim>\<open>catch\<close> clears the actor's flags, so the turn state
  in the flag is removed and not left as it was.  Here one action is left and the reply
  asks for two.
\<close>

theorem cost_overrun_clears_state_counterexample:
  "outcome (requestCycle (worldWith (stateWithConditions []) twoActionReply emptyIdentifyResult)
              oneActionLeftCall oneActionLeftFlags)
     = Failed (CostOverrun (JNum 2) 2 1)
   \<and> TURN_STATE oneActionLeftFlags = Some oneActionLeft
   \<and> TURN_STATE (flagsAfter
        (requestCycle (worldWith (stateWithConditions []) twoActionReply emptyIdentifyResult)
           oneActionLeftCall oneActionLeftFlags)) = None"
  by code_simp

text \<open>
  C1, amended.  When a call reaches the validation of the cost with a turn state whose
  remaining actions are fewer than the numeric cost of the arbitrated cost, and that cost
  is above 0, the suggestion is not shown: the call ends with the cost error, which is
  shown to the user, no turn state with a deduction is written, and the actor's flags,
  the turn state among them, are cleared.
\<close>

theorem cost_overrun_rejected:
  assumes "beforeCostValidation env args flags = Inr (turnState, parsed, flags1)"
    and "0 < numericCostForValidation (determineAuthoritativeCost (identified env) (cost parsed))"
    and "actionsRemaining turnState
           < numericCostForValidation (determineAuthoritativeCost (identified env) (cost parsed))"
  shows "requestCycle env args flags =
           \<lparr> outcome = Failed (CostOverrun
                         (determineAuthoritativeCost (identified env) (cost parsed))
                         (numericCostForValidation
                            (determineAuthoritativeCost (identified env) (cost parsed)))
                         (actionsRemaining turnState)),
             flagsAfter = \<lparr> TURN_STATE = None, IS_PROCESSING = False, CACHED_STRIKES = None \<rparr>,
             suggestionRequested = True,
             notifications = [CostOverrun
                         (determineAuthoritativeCost (identified env) (cost parsed))
                         (numericCostForValidation
                            (determineAuthoritativeCost (identified env) (cost parsed)))
                         (actionsRemaining turnState)] \<rparr>"
  using assms
  by (simp add: requestCycle_def presentSuggestion_def Let_def caught_def clearAITurnFlags_def)

theorem cost_overrun_rejected_witness:
  "requestCycle (worldWith (stateWithConditions []) twoActionReply emptyIdentifyResult)
          oneActionLeftCall oneActionLeftFlags
        = \<lparr> outcome = Failed (CostOverrun (JNum 2) 2 1), flagsAfter = noFlags,
            suggestionRequested = True, notifications = [CostOverrun (JNum 2) 2 1] \<rparr>"
proof -
  have reach: "beforeCostValidation (worldWith (stateWithConditions []) twoActionReply emptyIdentifyResult)
          oneActionLeftCall oneActionLeftFlags
        = Inr (oneActionLeft,
               \<lparr> description = ''Fireball'', target = Some ''Goblin'', cost = JNum 2,
                 rationale = None, narrative = None \<rparr>,
               oneActionLeftFlags)"
    by code_simp
  have c: "determineAuthoritativeCost emptyIdentifyResult (JNum 2) = JNum 2"
    by code_simp
  have n: "numericCostForValidation (JNum 2) = 2"
    by (simp add: numericCostForValidation_def)
  have a: "actionsRemaining oneActionLeft = 1"
    by (simp add: oneActionLeft_def)
  show ?thesis
    using cost_overrun_rejected [OF reach]
    by (simp add: worldWith_def c n a noFlags_def)
qed

lemma presentSuggestion_no_rerequest:
  "outcome (presentSuggestion env ts p fl) \<noteq> Rerequest s n t"
  by (simp add: presentSuggestion_def Let_def caught_def ended_def)

text \<open>
  C10.  When a call reaches the prerequisite validation and the primary action is Rend,
  Grab, Trip or Shove, but the description has no target name after the action name and a
  comma, the check is skipped: the call continues with the arbitration and validation of
  the cost exactly as for a suggestion without a rule, and it does not ask for another
  suggestion.
\<close>

theorem prerequisite_skipped_without_target:
  assumes "beforePrerequisites env args flags = Inr (turnState, gs, parsed, flags1)"
    and "map_option toLowerCase
           (firstTruthy [actionNameForLink (identified env), strikeNameForButton (identified env),
                         spellNameForButton (identified env),
                         consumableNameForButton (identified env)]) = Some a"
    and "a = ''rend'' \<or> a = ''grab'' \<or> a = ''trip'' \<or> a = ''shove''"
    and "prerequisiteTarget a (description parsed) = None
         \<or> prerequisiteTarget a (description parsed) = Some []"
  shows "prerequisiteCheck env gs turnState parsed = CheckSkipped
         \<and> requestCycle env args flags = presentSuggestion env turnState parsed flags1
         \<and> (\<forall>s n t. outcome (requestCycle env args flags) \<noteq> Rerequest s n t)"
proof -
  have sk: "prerequisiteCheck env gs turnState parsed = CheckSkipped"
    using assms(2,3,4)
    by (auto simp: prerequisiteCheck_def Let_def)
  then have rc: "requestCycle env args flags = presentSuggestion env turnState parsed flags1"
    using assms(1) by (simp add: requestCycle_def beforeCostValidation_def)
  show ?thesis
    using sk rc presentSuggestion_no_rerequest by simp
qed

theorem prerequisite_skipped_without_target_witness:
  "requestCycle (worldWith (stateWithConditions []) grabReply grabIdentified)
          oneActionLeftCall oneActionLeftFlags
        = \<lparr> outcome = SuggestionShown
               \<lparr> cardDescription = ''@UUID[Item.g1]{Grab} the goblin'', cardTarget = Some ''Goblin'',
                 cardCost = JNum 1, buttonCost = 1, cardTurnState = oneActionLeft \<rparr>,
            flagsAfter = oneActionLeftFlags,
            suggestionRequested = True, notifications = [] \<rparr>
   \<and> prerequisiteCheck (worldWith (stateWithConditions []) grabReply grabIdentified)
        (stateWithConditions []) oneActionLeft
        \<lparr> description = ''Grab the goblin'', target = Some ''Goblin'', cost = JNum 1,
          rationale = None, narrative = None \<rparr> = CheckSkipped"
proof -
  have reach: "beforePrerequisites (worldWith (stateWithConditions []) grabReply grabIdentified)
          oneActionLeftCall oneActionLeftFlags
        = Inr (oneActionLeft, stateWithConditions [],
               \<lparr> description = ''Grab the goblin'', target = Some ''Goblin'', cost = JNum 1,
                 rationale = None, narrative = None \<rparr>,
               oneActionLeftFlags)"
    by code_simp
  have name: "map_option toLowerCase
           (firstTruthy [actionNameForLink (identified (worldWith (stateWithConditions []) grabReply grabIdentified)),
                         strikeNameForButton (identified (worldWith (stateWithConditions []) grabReply grabIdentified)),
                         spellNameForButton (identified (worldWith (stateWithConditions []) grabReply grabIdentified)),
                         consumableNameForButton (identified (worldWith (stateWithConditions []) grabReply grabIdentified))])
         = Some ''grab''"
    by code_simp
  have target: "prerequisiteTarget ''grab''
       (description \<lparr> description = ''Grab the goblin'', target = Some ''Goblin'', cost = JNum 1,
                 rationale = None, narrative = None \<rparr>) = None"
    by code_simp
  have shown: "presentSuggestion (worldWith (stateWithConditions []) grabReply grabIdentified)
       oneActionLeft
       \<lparr> description = ''Grab the goblin'', target = Some ''Goblin'', cost = JNum 1,
                 rationale = None, narrative = None \<rparr> oneActionLeftFlags
     = \<lparr> outcome = SuggestionShown
               \<lparr> cardDescription = ''@UUID[Item.g1]{Grab} the goblin'', cardTarget = Some ''Goblin'',
                 cardCost = JNum 1, buttonCost = 1, cardTurnState = oneActionLeft \<rparr>,
            flagsAfter = oneActionLeftFlags,
            suggestionRequested = True, notifications = [] \<rparr>"
    by code_simp
  show ?thesis
    using prerequisite_skipped_without_target [OF reach name _ disjI1 [OF target]] shown
    by simp
qed

section \<open>Properties of the suggestion text parser\<close>

text \<open>A captured group that is not empty is not empty after trimming either.\<close>

lemma trim_nonempty:
  assumes "t \<noteq> []" and "\<not> isWhiteSpace (hd t)"
  shows "trim t \<noteq> []"
proof -
  have a: "trimStart t = t"
    using assms by (cases t) (simp_all add: trimStart_def)
  have "\<exists>c \<in> set (rev t). \<not> isWhiteSpace c"
    using assms by (cases t) auto
  then have "dropWhile isWhiteSpace (rev t) \<noteq> []"
    by (simp add: dropWhile_eq_Nil_conv)
  then show ?thesis
    using a by (simp add: trim_def trimEnd_def)
qed

lemma lineMatch_capture:
  assumes "lineMatch label l = Some t" and "t \<noteq> []"
  shows "trim t \<noteq> []"
proof -
  obtain r where t: "t = takeWhile (\<lambda>c. \<not> isLineTerminator c) (dropWhile isWhiteSpace r)"
    using assms(1) by (auto simp: lineMatch_def Let_def split: if_splits)
  then have ne: "dropWhile isWhiteSpace r \<noteq> []"
    using assms(2) by (metis takeWhile.simps(1))
  then have "\<not> isWhiteSpace (hd (dropWhile isWhiteSpace r))"
    by (rule hd_dropWhile)
  moreover have "hd t = hd (dropWhile isWhiteSpace r)"
    using t assms(2) ne by (cases "dropWhile isWhiteSpace r") (auto split: if_splits)
  ultimately show ?thesis
    using assms(2) by (intro trim_nonempty) simp_all
qed

text \<open>What the scan of the lines has found is kept; what it finds first is taken.\<close>

lemma keepFirst_truthy:
  "truthy potential \<Longrightarrow> keepFirst potential m = potential"
  by (auto simp: keepFirst_def truthy_def split: option.splits)

lemma keepFirst_found:
  assumes "lineMatch label l = Some t" and "t \<noteq> []"
  shows "truthy (keepFirst potential (lineMatch label l))"
  using assms lineMatch_capture [OF assms]
  by (auto simp: keepFirst_def truthy_def split: option.splits)

lemma scan_action_kept:
  "truthy (potentialAction st) \<Longrightarrow> truthy (potentialAction (foldl scanLine st ls))"
proof (induction ls arbitrary: st)
  case Nil
  then show ?case by simp
next
  case (Cons l ls)
  have "truthy (potentialAction (scanLine st l))"
    using Cons.prems by (simp add: scanLine_def Let_def keepFirst_truthy)
  from Cons.IH [OF this] show ?case by simp
qed

lemma scan_target_kept:
  "truthy (potentialTarget st) \<Longrightarrow> truthy (potentialTarget (foldl scanLine st ls))"
proof (induction ls arbitrary: st)
  case Nil
  then show ?case by simp
next
  case (Cons l ls)
  have "truthy (potentialTarget (scanLine st l))"
    using Cons.prems by (simp add: scanLine_def Let_def keepFirst_truthy)
  from Cons.IH [OF this] show ?case by simp
qed

lemma scan_action_found:
  assumes "\<exists>l \<in> set ls. \<exists>t. lineMatch ''ACTION:'' (trim l) = Some t \<and> t \<noteq> []"
  shows "truthy (potentialAction (foldl scanLine st ls))"
  using assms
proof (induction ls arbitrary: st)
  case Nil
  then show ?case by simp
next
  case (Cons l ls)
  show ?case
  proof (cases "\<exists>t. lineMatch ''ACTION:'' (trim l) = Some t \<and> t \<noteq> []")
    case True
    then have "truthy (potentialAction (scanLine st l))"
      by (auto simp: scanLine_def Let_def intro: keepFirst_found)
    then show ?thesis using scan_action_kept by simp
  next
    case False
    with Cons.prems have "\<exists>l \<in> set ls. \<exists>t. lineMatch ''ACTION:'' (trim l) = Some t \<and> t \<noteq> []"
      by auto
    from Cons.IH [OF this] show ?thesis by simp
  qed
qed

lemma scan_target_found:
  assumes "\<exists>l \<in> set ls. \<exists>t. lineMatch ''TARGET:'' (trim l) = Some t \<and> t \<noteq> []"
  shows "truthy (potentialTarget (foldl scanLine st ls))"
  using assms
proof (induction ls arbitrary: st)
  case Nil
  then show ?case by simp
next
  case (Cons l ls)
  show ?case
  proof (cases "\<exists>t. lineMatch ''TARGET:'' (trim l) = Some t \<and> t \<noteq> []")
    case True
    then have "truthy (potentialTarget (scanLine st l))"
      by (auto simp: scanLine_def Let_def intro: keepFirst_found)
    then show ?thesis using scan_target_kept by simp
  next
    case False
    with Cons.prems have "\<exists>l \<in> set ls. \<exists>t. lineMatch ''TARGET:'' (trim l) = Some t \<and> t \<noteq> []"
      by auto
    from Cons.IH [OF this] show ?thesis by simp
  qed
qed

lemma scan_cost_absent:
  assumes "\<forall>l \<in> set ls. \<forall>tok. costLineMatch (trim l) = Some tok \<longrightarrow> costOfToken tok = JNull"
    and "potentialCost st = JNull"
  shows "potentialCost (foldl scanLine st ls) = JNull"
  using assms
proof (induction ls arbitrary: st)
  case Nil
  then show ?case by simp
next
  case (Cons l ls)
  have "potentialCost (scanLine st l) = JNull"
    using Cons.prems by (auto simp: scanLine_def Let_def split: option.splits)
  with Cons show ?case by simp
qed

text \<open>
  A reply with an action line and a target line is never unparseable; when the primary
  strategy yields nothing and no line carries a valid cost, the cost is 1.
\<close>

lemma parser_returns_on_action_and_target:
  assumes "reply \<noteq> []"
    and "\<exists>l \<in> set (splitLines (stripLeadingHyphen reply)).
           \<exists>t. lineMatch ''ACTION:'' (trim l) = Some t \<and> t \<noteq> []"
    and "\<exists>l \<in> set (splitLines (stripLeadingHyphen reply)).
           \<exists>t. lineMatch ''TARGET:'' (trim l) = Some t \<and> t \<noteq> []"
  shows "\<exists>p. parseLLMSuggestion reply = Some p \<and>
           (parsePrimary (stripLeadingHyphen reply) = None \<and>
            (\<forall>l \<in> set (splitLines (stripLeadingHyphen reply)).
               \<forall>tok. costLineMatch (trim l) = Some tok \<longrightarrow> costOfToken tok = JNull)
            \<longrightarrow> cost p = JNum 1)"
proof (cases "parsePrimary (stripLeadingHyphen reply)")
  case (Some p)
  then show ?thesis using assms(1) by (simp add: parseLLMSuggestion_def)
next
  case None
  let ?st = "scanLines (splitLines (stripLeadingHyphen reply))"
  have a: "truthy (potentialAction ?st)"
    unfolding scanLines_def by (rule scan_action_found [OF assms(2)])
  have t: "truthy (potentialTarget ?st)"
    unfolding scanLines_def by (rule scan_target_found [OF assms(3)])
  obtain action where action: "potentialAction ?st = Some action" "action \<noteq> []"
    using a by (auto simp: truthy_def split: option.splits)
  show ?thesis
  proof (cases "potentialCost ?st = JNull")
    case True
    then show ?thesis
      using None assms(1) action t
      by (simp add: parseLLMSuggestion_def parseFallback_def Let_def)
  next
    case False
    have nc: "\<not> (\<forall>l \<in> set (splitLines (stripLeadingHyphen reply)).
               \<forall>tok. costLineMatch (trim l) = Some tok \<longrightarrow> costOfToken tok = JNull)"
    proof
      assume "\<forall>l \<in> set (splitLines (stripLeadingHyphen reply)).
               \<forall>tok. costLineMatch (trim l) = Some tok \<longrightarrow> costOfToken tok = JNull"
      from scan_cost_absent [OF this, of "\<lparr> potentialAction = None, potentialTarget = None,
          potentialCost = JNull, potentialRationale = None, potentialNarrative = None \<rparr>"]
      have "potentialCost ?st = JNull" by (simp add: scanLines_def)
      with False show False by simp
    qed
    have "\<exists>p. parseLLMSuggestion reply = Some p"
      using None assms(1) action t False
      by (simp add: parseLLMSuggestion_def parseFallback_def Let_def)
    then show ?thesis using nc by blast
  qed
qed

text \<open>
  C8.  For every reply in which the line-by-line fallback (reached when the primary
  strategy returned nothing) finds an \<^verbatim>\<open>ACTION\<close> line and a \<^verbatim>\<open>TARGET\<close> line with non-empty
  content, and no line has a valid cost (no \<^verbatim>\<open>COST\<close> line matches, or the number of each
  one that matches is outside 1..3), \<^verbatim>\<open>parseLLMSuggestion\<close> returns a result, not null,
  and the cost of the result is 1.
\<close>

theorem fallback_defaults_cost:
  assumes "parsePrimary (stripLeadingHyphen reply) = None"
    and "\<exists>l \<in> set (splitLines (stripLeadingHyphen reply)).
           \<exists>t. lineMatch ''ACTION:'' (trim l) = Some t \<and> t \<noteq> []"
    and "\<exists>l \<in> set (splitLines (stripLeadingHyphen reply)).
           \<exists>t. lineMatch ''TARGET:'' (trim l) = Some t \<and> t \<noteq> []"
    and "\<forall>l \<in> set (splitLines (stripLeadingHyphen reply)).
           \<forall>tok. costLineMatch (trim l) = Some tok \<longrightarrow> costOfToken tok = JNull"
  shows "\<exists>p. parseLLMSuggestion reply = Some p \<and> cost p = JNum 1"
proof -
  have "reply \<noteq> []"
  proof
    assume e: "reply = []"
    have "splitLines (stripLeadingHyphen []) = [[]]" by code_simp
    moreover have "lineMatch ''ACTION:'' (trim []) = None" by code_simp
    ultimately show False using assms(2) e by simp
  qed
  from parser_returns_on_action_and_target [OF this assms(2) assms(3)] assms(1) assms(4)
  show ?thesis by blast
qed

text \<open>
  The spec's example: \<^verbatim>\<open>ACTION: Stride\<close>, \<^verbatim>\<open>TARGET: Self\<close> and no cost line.  A second
  reply has a cost line whose number is out of range.
\<close>

theorem fallback_defaults_cost_witness:
  "parseLLMSuggestion strideReply
     = Some \<lparr> description = ''Stride'', target = Some ''Self'', cost = JNum 1,
              rationale = None, narrative = Some [] \<rparr>
   \<and> (\<exists>p. parseLLMSuggestion strideReply = Some p \<and> cost p = JNum 1)"
proof -
  have ls: "splitLines (stripLeadingHyphen strideReply) = [''ACTION: Stride'', ''TARGET: Self'']"
    by code_simp
  have p: "parsePrimary (stripLeadingHyphen strideReply) = None"
    by code_simp
  have a: "lineMatch ''ACTION:'' (trim ''ACTION: Stride'') = Some ''Stride''"
    by code_simp
  have t: "lineMatch ''TARGET:'' (trim ''TARGET: Self'') = Some ''Self''"
    by code_simp
  have c: "costLineMatch (trim ''ACTION: Stride'') = None"
          "costLineMatch (trim ''TARGET: Self'') = None"
    by code_simp+
  have h2: "\<exists>l \<in> set (splitLines (stripLeadingHyphen strideReply)).
              \<exists>t. lineMatch ''ACTION:'' (trim l) = Some t \<and> t \<noteq> []"
    using ls a by simp
  have h3: "\<exists>l \<in> set (splitLines (stripLeadingHyphen strideReply)).
              \<exists>t. lineMatch ''TARGET:'' (trim l) = Some t \<and> t \<noteq> []"
    using ls t by simp
  have h4: "\<forall>l \<in> set (splitLines (stripLeadingHyphen strideReply)).
              \<forall>tok. costLineMatch (trim l) = Some tok \<longrightarrow> costOfToken tok = JNull"
    using ls c by simp
  have r: "\<exists>p. parseLLMSuggestion strideReply = Some p \<and> cost p = JNum 1"
    using fallback_defaults_cost [OF p h2 h3 h4] .
  have e: "parseLLMSuggestion strideReply
     = Some \<lparr> description = ''Stride'', target = Some ''Self'', cost = JNum 1,
              rationale = None, narrative = Some [] \<rparr>"
    by code_simp
  show ?thesis using r e by simp
qed

lemma out_of_range_cost_defaults:
  "map_option cost
     (parseLLMSuggestion (''ACTION: Stride'' @ [CHR 0x0A] @ ''COST: 5'' @ [CHR 0x0A]
                            @ ''TARGET: Self''))
     = Some (JNum 1)"
  by code_simp

section \<open>Properties of the action resolver\<close>

subsection \<open>Overlap resolution\<close>

lemma find_Some_holds: "List.find P xs = Some x \<Longrightarrow> P x \<and> x \<in> set xs"
  by (induction xs) (auto split: if_splits)

lemma indexOfFrom_Some:
  assumes "indexOfFrom s sub i = Some k"
  shows "min i (length s) \<le> k \<and> k + length sub \<le> length s"
  using find_Some_holds [OF assms [unfolded indexOfFrom_def]]
  by auto

lemma secondaryMatches_returns:
  assumes "itemName item \<noteq> []"
  shows "length d - searchIndex < rounds \<Longrightarrow>
         \<exists>r. secondaryMatches rounds d item searchIndex acc = Some r"
proof (induction rounds arbitrary: searchIndex acc)
  case 0
  then show ?case by simp
next
  case (Suc rounds)
  show ?case
  proof (cases "indexOfFrom d (toLowerCase (itemName item)) searchIndex")
    case None
    then show ?thesis by simp
  next
    case (Some k)
    have pos: "1 \<le> length (toLowerCase (itemName item))"
      using assms by (cases "itemName item") (simp_all add: toLowerCase_def)
    have k: "min searchIndex (length d) \<le> k" "k < length d"
      using indexOfFrom_Some [OF Some] pos by linarith+
    then have "length d - (k + 1) < rounds"
      using Suc.prems by (auto simp: min_def split: if_splits)
    from Suc.IH [OF this] show ?thesis
      using Some by (simp add: Let_def)
  qed
qed

lemma secondaryMatches_empty_name:
  "itemName item = [] \<Longrightarrow> secondaryMatches rounds d item searchIndex acc = None"
proof (induction rounds arbitrary: searchIndex acc)
  case 0
  then show ?case by simp
next
  case (Suc rounds)
  have "[min searchIndex (length d) ..< Suc (length d)]
        = min searchIndex (length d) # [Suc (min searchIndex (length d)) ..< Suc (length d)]"
    by (rule upt_conv_Cons) simp
  then have "indexOfFrom d [] searchIndex = Some (min searchIndex (length d))"
    by (simp add: indexOfFrom_def)
  then show ?case
    using Suc by (simp add: Let_def toLowerCase_def)
qed

lemma scanItems_returns:
  assumes "\<forall>item \<in> set items. itemName item \<noteq> []" and "length d < rounds"
  shows "\<exists>r. scanItems rounds d items acc = Some r"
  using assms(1)
proof (induction items arbitrary: acc)
  case Nil
  then show ?case by simp
next
  case (Cons item items)
  have "length (toLowerCase d) - 0 < rounds"
    using assms(2) by (simp add: toLowerCase_def)
  from secondaryMatches_returns [OF _ this, of item]
  obtain r where "secondaryMatches rounds (toLowerCase d) item 0
             (acc @ primaryMatch (toLowerCase (primaryActionName d)) item) = Some r"
    using Cons.prems by auto
  then show ?case
    using Cons by simp
qed

lemma pairwiseDisjoint_snoc:
  "pairwiseDisjoint (ms @ [m]) \<longleftrightarrow> pairwiseDisjoint ms \<and> list_all (\<lambda>x. spansDisjoint x m) ms"
  by (induction ms) (auto simp: list_all_iff)

lemma acceptMatch_invariant:
  assumes "pairwiseDisjoint (fst st)"
    and "\<forall>x \<in> set (fst st). {startIndex x ..< endIndex x} \<subseteq> snd st"
  shows "pairwiseDisjoint (fst (acceptMatch st m)) \<and>
         (\<forall>x \<in> set (fst (acceptMatch st m)). {startIndex x ..< endIndex x} \<subseteq> snd (acceptMatch st m))"
proof (cases st)
  case (Pair confirmed covered)
  show ?thesis
  proof (cases "list_ex (\<lambda>i. i \<in> covered) [startIndex m ..< endIndex m]")
    case True
    then show ?thesis using assms Pair by (simp add: acceptMatch_def)
  next
    case False
    then have free: "{startIndex m ..< endIndex m} \<inter> covered = {}"
      by (auto simp: list_ex_iff)
    have "spansDisjoint x m" if "x \<in> set confirmed" for x
    proof -
      have "{startIndex x ..< endIndex x} \<subseteq> covered"
        using assms(2) Pair that by simp
      with free show ?thesis
        unfolding spansDisjoint_def by blast
    qed
    then have "list_all (\<lambda>x. spansDisjoint x m) confirmed"
      by (simp add: list_all_iff)
    then show ?thesis
      using assms Pair False
      by (auto simp: acceptMatch_def pairwiseDisjoint_snoc)
  qed
qed

lemma foldl_acceptMatch_invariant:
  assumes "pairwiseDisjoint (fst st)"
    and "\<forall>x \<in> set (fst st). {startIndex x ..< endIndex x} \<subseteq> snd st"
  shows "pairwiseDisjoint (fst (foldl acceptMatch st ms))"
  using assms
proof (induction ms arbitrary: st)
  case Nil
  then show ?case by simp
next
  case (Cons m ms)
  from acceptMatch_invariant [OF Cons.prems, of m]
  show ?case
    using Cons.IH [of "acceptMatch st m"] by simp
qed

lemma resolveOverlaps_disjoint: "pairwiseDisjoint (resolveOverlaps ms)"
  unfolding resolveOverlaps_def
  by (rule foldl_acceptMatch_invariant) simp_all

lemma confirmedMatches_returns:
  assumes "\<forall>item \<in> set masterItemList. itemName item \<noteq> []"
    and "length cleanedDescription < rounds"
  shows "\<exists>ms. confirmedMatches rounds cleanedDescription masterItemList = Some ms"
proof -
  from scanItems_returns [OF assms, of "[]"]
  obtain r where "scanItems rounds cleanedDescription masterItemList [] = Some r" by blast
  then show ?thesis
    by (simp add: confirmedMatches_def)
qed

lemma confirmedMatches_empty_name:
  "itemName item = [] \<Longrightarrow> confirmedMatches rounds cleanedDescription (item # items) = None"
  by (simp add: confirmedMatches_def secondaryMatches_empty_name)

text \<open>
  C7.  For every cleaned description and catalog, the confirmed matches have pairwise
  disjoint character spans: the greedy pass gives disjoint spans on every list of
  potential matches, whatever order the sort has put it in, so what the resolution of a
  description returns is disjoint; and it does return, as a function of the description
  and the catalog alone, once the scan of each item's occurrences is given more rounds
  than the description has characters, for a catalog without an empty name.  (With an
  empty name the scan never comes to an end and nothing is returned.)
\<close>

theorem confirmed_matches_disjoint:
  "pairwiseDisjoint (resolveOverlaps sortedMatches)
   \<and> (\<forall>ms. confirmedMatches rounds cleanedDescription masterItemList = Some ms
          \<longrightarrow> pairwiseDisjoint ms)
   \<and> ((\<forall>item \<in> set masterItemList. itemName item \<noteq> [])
        \<and> length cleanedDescription < rounds
        \<longrightarrow> (\<exists>ms. confirmedMatches rounds cleanedDescription masterItemList = Some ms
                  \<and> pairwiseDisjoint ms))"
proof -
  have a: "\<forall>ms. confirmedMatches rounds cleanedDescription masterItemList = Some ms
          \<longrightarrow> pairwiseDisjoint ms"
    by (auto simp: confirmedMatches_def resolveOverlaps_disjoint)
  then show ?thesis
    using resolveOverlaps_disjoint confirmedMatches_returns by blast
qed

text \<open>
  The spec's example: with the entries \<^verbatim>\<open>Power Strike\<close> and \<^verbatim>\<open>Strike\<close> and the
  description \<^verbatim>\<open>Power Strike the goblin\<close> the one confirmed match is \<^verbatim>\<open>Power Strike\<close>
  at 0 to 12, in either order of the catalog.
\<close>

theorem confirmed_matches_disjoint_witness:
  "confirmedMatches 24 ''Power Strike the goblin'' [powerStrikeItem, strikeItem]
     = Some [\<lparr> startIndex = 0, endIndex = 12, matched = powerStrikeItem, nameLength = 12 \<rparr>]
   \<and> pairwiseDisjoint
       [\<lparr> startIndex = 0, endIndex = 12, matched = powerStrikeItem, nameLength = 12 \<rparr>]
   \<and> (\<exists>ms. confirmedMatches 24 ''Power Strike the goblin'' [powerStrikeItem, strikeItem]
              = Some ms \<and> pairwiseDisjoint ms)"
proof -
  have e: "confirmedMatches 24 ''Power Strike the goblin'' [powerStrikeItem, strikeItem]
     = Some [\<lparr> startIndex = 0, endIndex = 12, matched = powerStrikeItem, nameLength = 12 \<rparr>]"
    by code_simp
  have n: "\<forall>item \<in> set [powerStrikeItem, strikeItem]. itemName item \<noteq> []"
    by (simp add: powerStrikeItem_def strikeItem_def)
  have l: "length ''Power Strike the goblin'' < (24 :: nat)"
    by simp
  note t = confirmed_matches_disjoint
             [of "[]" 24 "''Power Strike the goblin''" "[powerStrikeItem, strikeItem]"]
  have d: "pairwiseDisjoint
       [\<lparr> startIndex = 0, endIndex = 12, matched = powerStrikeItem, nameLength = 12 \<rparr>]"
    using t e by blast
  have r: "\<exists>ms. confirmedMatches 24 ''Power Strike the goblin'' [powerStrikeItem, strikeItem]
              = Some ms \<and> pairwiseDisjoint ms"
    using t n l by blast
  show ?thesis using e d r by blast
qed

lemma confirmed_matches_other_order:
  "confirmedMatches 24 ''Power Strike the goblin'' [strikeItem, powerStrikeItem]
     = Some [\<lparr> startIndex = 0, endIndex = 12, matched = powerStrikeItem, nameLength = 12 \<rparr>]"
  by code_simp

subsection \<open>Flurry of Blows\<close>

text \<open>
  The sort puts first a strike that no other eligible strike beats: none has a higher
  base bonus, and none with the same bonus has a higher estimate of
  \<^verbatim>\<open>estimateAverageDamage\<close>.
\<close>

lemma set_insertBy: "set (insertBy cmp x ys) = insert x (set ys)"
  by (induction ys) auto

lemma set_sortBy: "set (sortBy cmp xs) = set xs"
  unfolding sortBy_def by (induction xs) (simp_all add: set_insertBy)

lemma insertBy_head:
  assumes refl: "\<And>a. cmp a a \<le> 0"
    and total: "\<And>a b. cmp a b \<le> 0 \<or> cmp b a \<le> 0"
    and trans: "\<And>a b c. cmp a b \<le> 0 \<Longrightarrow> cmp b c \<le> 0 \<Longrightarrow> cmp a c \<le> 0"
    and sorted: "ys \<noteq> [] \<longrightarrow> (\<forall>y \<in> set ys. cmp (hd ys) y \<le> 0)"
  shows "\<forall>y \<in> set (insertBy cmp x ys). cmp (hd (insertBy cmp x ys)) y \<le> 0"
proof (cases ys)
  case Nil
  then show ?thesis using refl by simp
next
  case (Cons h t)
  show ?thesis
  proof (cases "cmp x h \<le> 0")
    case True
    then show ?thesis
      using Cons sorted refl trans by (auto simp: set_insertBy)
  next
    case False
    then have "cmp h x \<le> 0" using total by blast
    then show ?thesis
      using Cons False sorted by (auto simp: set_insertBy)
  qed
qed

lemma sortBy_head:
  assumes refl: "\<And>a. cmp a a \<le> 0"
    and total: "\<And>a b. cmp a b \<le> 0 \<or> cmp b a \<le> 0"
    and trans: "\<And>a b c. cmp a b \<le> 0 \<Longrightarrow> cmp b c \<le> 0 \<Longrightarrow> cmp a c \<le> 0"
  shows "\<forall>y \<in> set (sortBy cmp xs). cmp (hd (sortBy cmp xs)) y \<le> 0"
proof (induction xs)
  case Nil
  then show ?case by (simp add: sortBy_def)
next
  case (Cons x xs)
  have "\<forall>y \<in> set (insertBy cmp x (sortBy cmp xs)). cmp (hd (insertBy cmp x (sortBy cmp xs))) y \<le> 0"
    by (rule insertBy_head [OF refl total trans]) (use Cons in auto)
  then show ?case by (simp add: sortBy_def)
qed

lemma compareStrikes_le:
  "compareStrikes a b \<le> 0 \<longleftrightarrow>
     parseBaseBonus (bonuses b) < parseBaseBonus (bonuses a)
     \<or> (parseBaseBonus (bonuses b) = parseBaseBonus (bonuses a)
         \<and> estimateAverageDamage (damage b) \<le> estimateAverageDamage (damage a))"
  by (auto simp: compareStrikes_def)

lemma flurry_selects_best:
  assumes "toLowerCase (primaryActionName cleanedDescription) = ''flurry of blows''"
    and "eligibleStrikes gameStrikes \<noteq> []"
  shows "\<exists>best r. flurryOfBlows cleanedDescription gameStrikes = Some r
           \<and> best \<in> set (eligibleStrikes gameStrikes)
           \<and> (\<forall>s \<in> set (eligibleStrikes gameStrikes).
                 parseBaseBonus (bonuses s) < parseBaseBonus (bonuses best)
                 \<or> (parseBaseBonus (bonuses s) = parseBaseBonus (bonuses best)
                     \<and> estimateAverageDamage (damage s) \<le> estimateAverageDamage (damage best)))
           \<and> strikeNameForButton r = firstTruthy [strikeLabel best, strikeName best]
           \<and> isStrikeSuggestion r \<and> actualActionCost r = JNum 1
           \<and> ''attack'' \<in> set (traits r) \<and> ''flurry'' \<in> set (traits r)"
proof -
  let ?sorted = "sortBy compareStrikes (eligibleStrikes gameStrikes)"
  have ne: "?sorted \<noteq> []"
    using assms(2) set_sortBy [of compareStrikes "eligibleStrikes gameStrikes"] by auto
  then obtain best others where so: "?sorted = best # others" by (cases ?sorted) auto
  have head: "\<forall>y \<in> set ?sorted. compareStrikes (hd ?sorted) y \<le> 0"
    by (rule sortBy_head) (auto simp: compareStrikes_le)
  have mem: "best \<in> set (eligibleStrikes gameStrikes)"
    using so set_sortBy [of compareStrikes "eligibleStrikes gameStrikes"] by auto
  have best: "\<forall>s \<in> set (eligibleStrikes gameStrikes).
                 parseBaseBonus (bonuses s) < parseBaseBonus (bonuses best)
                 \<or> (parseBaseBonus (bonuses s) = parseBaseBonus (bonuses best)
                     \<and> estimateAverageDamage (damage s) \<le> estimateAverageDamage (damage best))"
  proof
    fix s assume "s \<in> set (eligibleStrikes gameStrikes)"
    then have "s \<in> set ?sorted" by (simp only: set_sortBy)
    then have "compareStrikes (hd ?sorted) s \<le> 0" using head by blast
    then have "compareStrikes best s \<le> 0" using so by simp
    then show "parseBaseBonus (bonuses s) < parseBaseBonus (bonuses best)
                 \<or> (parseBaseBonus (bonuses s) = parseBaseBonus (bonuses best)
                     \<and> estimateAverageDamage (damage s) \<le> estimateAverageDamage (damage best))"
      by (simp only: compareStrikes_le)
  qed
  have tr: "''attack'' \<in> set (firstOccurrences ([''attack'', ''flurry''] @ xs))
          \<and> ''flurry'' \<in> set (firstOccurrences ([''attack'', ''flurry''] @ xs))" for xs
  proof -
    have "set (foldl (\<lambda>acc v. if v \<in> set acc then acc else acc @ [v]) a ys) = set a \<union> set ys"
      for a ys :: "string list"
      by (induction ys arbitrary: a) auto
    then show ?thesis by (simp add: firstOccurrences_def)
  qed
  show ?thesis
    using assms(1) so mem best tr
    by (auto simp: flurryOfBlows_def)
qed

text \<open>
  C9.  The estimate is not the sum of \<open>dice * (die + 1) / 2\<close> plus the flat modifiers when
  a signed dice term has a count of two or more digits: the pattern
  \<^verbatim>\<open>([+-]\s*\d+)(?!d)\<close> for the flat modifiers gives up the last digit of the count and
  takes the rest as a modifier, so \<^verbatim>\<open>+10d6\<close> adds 1 to the dice.  For the jaws
  (\<^verbatim>\<open>1d4+10d6\<close>, 37.5 by the sum) the code's estimate is 38.5, above the claw's 38
  (\<^verbatim>\<open>2d8+29\<close>), and with equal bonuses Flurry of Blows is resolved to the jaws, the strike
  with the lower average damage.
\<close>

theorem flurry_estimate_counts_dice_digits:
  "estimateAverageDamage (damage clawStrike) = 38
   \<and> diceTotal 0 ''1d4+10d6'' = 75 / 2
   \<and> flatTotal 0 ''1d4+10d6'' = 1
   \<and> estimateAverageDamage (damage jawsStrike) = 77 / 2
   \<and> parseBaseBonus (bonuses clawStrike) = parseBaseBonus (bonuses jawsStrike)
   \<and> eligibleStrikes (Some [clawStrike, jawsStrike]) = [clawStrike, jawsStrike]
   \<and> map_option strikeNameForButton
        (flurryOfBlows ''Flurry of Blows'' (Some [clawStrike, jawsStrike]))
       = Some (Some ''Jaws'')"
  by code_simp

end
